theory Spec2Isabelle
  imports Complex_Main "HOL-Library.Word"
begin

section \<open>Python values at the boundary of the program\<close>

text \<open>
  The back end is three Python modules: \<open>main.py\<close> (the auto-detect endpoint \<open>ws_asr\<close>
  with its language state machine), \<open>ws_fixed.py\<close> (fixed-language endpoint) and
  \<open>ws_multilang_adaptive.py\<close>.  Audio chunks are Python \<open>bytes\<close>, modelled as lists of
  8-bit words.  Strings are lists of characters (the ASCII range of Python's \<open>str\<close>).
  Python floats are modelled by real numbers: comparisons keep their strictness, rounding
  is not represented.  Sending to the client (\<open>ws.send_json\<close>) and the calls on the Azure
  Speech SDK are taken to return; requests to Whisper, to Azure Translator and to the
  embedding service can fail, and their failures are values of the model.
\<close>

type_synonym bytes = "8 word list"

text \<open>The exceptions that the modelled code can raise, as values.\<close>

datatype exn =
    StructError       \<comment> \<open>\<open>struct.error\<close>: buffer size does not match the format\<close>
  | ClientError       \<comment> \<open>\<open>aiohttp.ClientError\<close>: the POST itself failed\<close>
  | JSONError         \<comment> \<open>\<open>resp.json()\<close> could not decode the body\<close>
  | KeyError
  | IndexError
  | TypeError
  | AttributeError

text \<open>A decoded JSON document; a dict is kept as the list of its items.\<close>

datatype json =
    JNull
  | JBool bool
  | JNum real
  | JStr string
  | JArr "json list"
  | JObj "(string \<times> json) list"

text \<open>
  What one HTTP POST to a collaborator comes back with: either the request raises, or
  there is a response with a status code and a body (\<open>None\<close> when the body is not JSON,
  so that \<open>await resp.json()\<close> raises).
\<close>

datatype reply = Unreachable | Reply nat "json option"

text \<open>\<open>data[i]\<close>, \<open>data["k"]\<close> and \<open>data.get("k", d)\<close> on a decoded document.\<close>

fun py_index :: "json \<Rightarrow> nat \<Rightarrow> exn + json" where
  "py_index (JArr xs) i = (if i < length xs then Inr (xs ! i) else Inl IndexError)"
| "py_index (JObj kv) i = Inl KeyError"
| "py_index (JStr s) i = (if i < length s then Inr (JStr [s ! i]) else Inl IndexError)"
| "py_index _ i = Inl TypeError"

fun py_key :: "json \<Rightarrow> string \<Rightarrow> exn + json" where
  "py_key (JObj kv) k = (case map_of kv k of Some v \<Rightarrow> Inr v | None \<Rightarrow> Inl KeyError)"
| "py_key _ k = Inl TypeError"

fun py_get :: "json \<Rightarrow> string \<Rightarrow> json \<Rightarrow> exn + json" where
  "py_get (JObj kv) k d = Inr (case map_of kv k of Some v \<Rightarrow> v | None \<Rightarrow> d)"
| "py_get _ k d = Inl AttributeError"

fun py_truthy :: "json \<Rightarrow> bool" where
  "py_truthy JNull = False"
| "py_truthy (JBool b) = b"
| "py_truthy (JNum x) = (x \<noteq> 0)"
| "py_truthy (JStr s) = (s \<noteq> [])"
| "py_truthy (JArr xs) = (xs \<noteq> [])"
| "py_truthy (JObj kv) = (kv \<noteq> [])"

text \<open>
  The collaborator functions are annotated \<open>-> str\<close>.  A field that is not a string is
  reported as a \<open>TypeError\<close> where the function returns it.
\<close>

fun as_str :: "json \<Rightarrow> exn + string" where
  "as_str (JStr s) = Inr s"
| "as_str _ = Inl TypeError"

definition and_then :: "exn + 'a \<Rightarrow> ('a \<Rightarrow> exn + 'b) \<Rightarrow> exn + 'b" where
  "and_then r f = (case r of Inl e \<Rightarrow> Inl e | Inr v \<Rightarrow> f v)"

text \<open>\<open>str.lower\<close> and \<open>str.strip\<close> on ASCII strings.\<close>

definition lower_char :: "char \<Rightarrow> char" where
  "lower_char c =
     (case map_of (zip ''ABCDEFGHIJKLMNOPQRSTUVWXYZ'' ''abcdefghijklmnopqrstuvwxyz'') c of
        Some d \<Rightarrow> d
      | None \<Rightarrow> c)"

definition py_lower :: "string \<Rightarrow> string" where
  "py_lower s = map lower_char s"

definition is_space :: "char \<Rightarrow> bool" where
  "is_space c = (let n = (of_char c :: nat) in (9 \<le> n \<and> n \<le> 13) \<or> (28 \<le> n \<and> n \<le> 32))"

definition py_strip :: "string \<Rightarrow> string" where
  "py_strip s = rev (dropWhile is_space (rev (dropWhile is_space s)))"

fun lower_of :: "json \<Rightarrow> exn + string" where
  "lower_of (JStr s) = Inr (py_lower s)"
| "lower_of _ = Inl AttributeError"

section \<open>Constants of \<open>main.py\<close>\<close>

definition TARGET_LANG :: string where
  "TARGET_LANG = ''en''"

definition LANG_MAP :: "(string \<times> string) list" where
  "LANG_MAP =
    [(''english'', ''en-US''), (''en'', ''en-US''),
     (''chinese'', ''zh-TW''), (''mandarin'', ''zh-CN''), (''zh'', ''zh-CN''),
     (''japanese'', ''ja-JP''), (''ja'', ''ja-JP''),
     (''korean'', ''ko-KR''), (''ko'', ''ko-KR''),
     (''thai'', ''th-TH''), (''th'', ''th-TH''),
     (''vietnamese'', ''vi-VN''), (''vi'', ''vi-VN''),
     (''indonesian'', ''id-ID''), (''id'', ''id-ID''),
     (''malay'', ''ms-MY''), (''ms'', ''ms-MY''),
     (''hindi'', ''hi-IN''), (''hi'', ''hi-IN''),
     (''french'', ''fr-FR''), (''fr'', ''fr-FR''),
     (''german'', ''de-DE''), (''de'', ''de-DE''),
     (''spanish'', ''es-ES''), (''es'', ''es-ES''),
     (''portuguese'', ''pt-PT''), (''pt'', ''pt-PT'')]"

text \<open>\<open>lang in LANG_MAP\<close> and \<open>LANG_MAP.get(lang, "en-US")\<close>.\<close>

definition in_LANG_MAP :: "string \<Rightarrow> bool" where
  "in_LANG_MAP lang = (map_of LANG_MAP lang \<noteq> None)"

definition azure_lang_of :: "string \<Rightarrow> string" where
  "azure_lang_of lang = (case map_of LANG_MAP lang of Some a \<Rightarrow> a | None \<Rightarrow> ''en-US'')"

definition SILENCE_RMS_THRESHOLD :: real where
  "SILENCE_RMS_THRESHOLD = 300"

definition MIN_DETECT_SEC :: real where
  "MIN_DETECT_SEC = 8 / 10"

definition MAX_DETECT_SEC :: real where
  "MAX_DETECT_SEC = 8"

section \<open>Audio utilities\<close>

text \<open>
  \<open>struct.unpack("<" + "h" * (len(pcm) // 2), pcm)\<close>: the format asks for exactly
  \<open>2 * (len(pcm) // 2)\<close> bytes and \<open>struct\<close> raises when the buffer has another size.
  Each sample is a little-endian signed 16-bit integer.
\<close>

fun samples :: "bytes \<Rightarrow> int list" where
  "samples (lo # hi # rest) = sint (word_cat hi lo :: 16 word) # samples rest"
| "samples _ = []"

definition unpack_h :: "bytes \<Rightarrow> exn + int list" where
  "unpack_h pcm =
     (if length pcm = 2 * (length pcm div 2) then Inr (samples pcm) else Inl StructError)"

definition rms_energy :: "bytes \<Rightarrow> exn + real" where
  "rms_energy pcm =
     (if pcm = [] then Inr 0
      else case unpack_h pcm of
             Inl e \<Rightarrow> Inl e
           | Inr ss \<Rightarrow> Inr (sqrt (real_of_int (sum_list (map (\<lambda>s. s * s) ss)) / real (length ss))))"

section \<open>What the session does to the outside\<close>

text \<open>
  Every effect of a session is recorded, in order, in one list: the JSON events sent to
  the client with \<open>ws.send_json\<close>, the POSTs to the collaborators and the calls on the
  Azure recognizer.  A POST to Whisper carries the WAV container of the PCM bytes named
  here.
\<close>

datatype action =
    Send json                        \<comment> \<open>\<open>ws.send_json\<close>\<close>
  | Whisper_detect_post bytes        \<comment> \<open>transcriptions endpoint, \<open>verbose_json\<close>\<close>
  | Whisper_transcribe_post bytes    \<comment> \<open>transcriptions endpoint\<close>
  | Whisper_translate_post bytes     \<comment> \<open>translations endpoint\<close>
  | Translator_post string string    \<comment> \<open>Azure Translator: text and target\<close>
  | Embedding_post string
  | Recognizer_start string          \<comment> \<open>with \<open>speech_recognition_language\<close>\<close>
  | Recognizer_stop
  | Stream_write bytes               \<comment> \<open>\<open>push_stream.write\<close>\<close>
  | Stream_close
  | Sleep real
  | Handle_utterance bytes           \<comment> \<open>\<open>asyncio.create_task(handle_utterance(utt_pcm))\<close>\<close>

section \<open>Collaborator calls of \<open>main.py\<close>\<close>

text \<open>
  Each function takes the reply its POST will get and returns the requests it issued
  together with its result.  \<open>log.error\<close> is not modelled.
\<close>

definition whisper_detect :: "bytes \<Rightarrow> reply \<Rightarrow> action list \<times> (exn + string)" where
  "whisper_detect pcm r =
     (if pcm = [] then ([], Inr ''unknown'')
      else ([Whisper_detect_post pcm],
        case r of
          Unreachable \<Rightarrow> Inl ClientError
        | Reply status body \<Rightarrow>
            if status \<noteq> 200 then Inr ''unknown''
            else (case body of
                    None \<Rightarrow> Inl JSONError
                  | Some data \<Rightarrow>
                      and_then (py_get data ''language'' JNull)
                        (\<lambda>v. lower_of (if py_truthy v then v else JStr ''unknown'')))))"

definition whisper_transcribe :: "bytes \<Rightarrow> reply \<Rightarrow> action list \<times> (exn + string)" where
  "whisper_transcribe pcm r =
     (if pcm = [] then ([], Inr [])
      else ([Whisper_transcribe_post pcm],
        case r of
          Unreachable \<Rightarrow> Inl ClientError
        | Reply status body \<Rightarrow>
            if status \<noteq> 200 then Inr []
            else (case body of
                    None \<Rightarrow> Inl JSONError
                  | Some data \<Rightarrow> and_then (py_get data ''text'' (JStr [])) as_str)))"

definition whisper_translate :: "bytes \<Rightarrow> reply \<Rightarrow> action list \<times> (exn + string)" where
  "whisper_translate pcm r =
     (if pcm = [] then ([], Inr [])
      else ([Whisper_translate_post pcm],
        case r of
          Unreachable \<Rightarrow> Inl ClientError
        | Reply status body \<Rightarrow>
            if status \<noteq> 200 then Inr []
            else (case body of
                    None \<Rightarrow> Inl JSONError
                  | Some data \<Rightarrow> and_then (py_get data ''text'' (JStr [])) as_str)))"

text \<open>\<open>data[0]["translations"][0]["text"]\<close>\<close>

definition first_translation :: "json \<Rightarrow> exn + string" where
  "first_translation data =
     and_then (py_index data 0) (\<lambda>item.
     and_then (py_key item ''translations'') (\<lambda>ts.
     and_then (py_index ts 0) (\<lambda>t.
     and_then (py_key t ''text'') as_str)))"

text \<open>\<open>azure_translate\<close> of \<open>main.py\<close>: the status of the response is not looked at.\<close>

definition azure_translate :: "string \<Rightarrow> string \<Rightarrow> reply \<Rightarrow> action list \<times> (exn + string)" where
  "azure_translate txt target r =
     (if py_strip txt = [] then ([], Inr [])
      else ([Translator_post txt target],
        case r of
          Unreachable \<Rightarrow> Inl ClientError
        | Reply status body \<Rightarrow>
            (case body of
               None \<Rightarrow> Inl JSONError
             | Some data \<Rightarrow> first_translation data)))"

text \<open>
  \<open>embed\<close>: \<open>data["data"][0]["embedding"]\<close>.  The vector is kept as a list of reals; a
  value at that place that is neither \<open>null\<close> nor a list of numbers is reported as a
  \<open>TypeError\<close> here.
\<close>

fun as_numbers :: "json list \<Rightarrow> real list option" where
  "as_numbers [] = Some []"
| "as_numbers (JNum x # rest) = map_option (\<lambda>xs. x # xs) (as_numbers rest)"
| "as_numbers (_ # rest) = None"

fun as_vector :: "json \<Rightarrow> exn + real list option" where
  "as_vector JNull = Inr None"
| "as_vector (JArr xs) = (case as_numbers xs of Some v \<Rightarrow> Inr (Some v) | None \<Rightarrow> Inl TypeError)"
| "as_vector _ = Inl TypeError"

definition embed :: "string \<Rightarrow> reply \<Rightarrow> action list \<times> (exn + real list option)" where
  "embed txt r =
     (if txt = [] then ([], Inr None)
      else ([Embedding_post txt],
        case r of
          Unreachable \<Rightarrow> Inl ClientError
        | Reply status body \<Rightarrow>
            if status \<noteq> 200 then Inr None
            else (case body of
                    None \<Rightarrow> Inl JSONError
                  | Some data \<Rightarrow>
                      and_then (py_key data ''data'') (\<lambda>d.
                      and_then (py_index d 0) (\<lambda>item.
                      and_then (py_key item ''embedding'') as_vector)))))"

text \<open>The callers wrap \<open>embed\<close> in \<open>try ... except Exception\<close> and go on with \<open>None\<close>.\<close>

definition embed_or_none :: "string \<Rightarrow> reply \<Rightarrow> action list \<times> real list option" where
  "embed_or_none txt r =
     (case embed txt r of (acts, Inl e) \<Rightarrow> (acts, None) | (acts, Inr v) \<Rightarrow> (acts, v))"

definition cosine :: "real list \<Rightarrow> real list \<Rightarrow> real" where
  "cosine a b =
     (let dot = sum_list (map (\<lambda>(x, y). x * y) (zip a b));
          na = sqrt (sum_list (map (\<lambda>x. x * x) a));
          nb = sqrt (sum_list (map (\<lambda>x. x * x) b))
      in dot / (na * nb + 1 / 10 ^ 8))"

section \<open>The session of \<open>ws_asr\<close>\<close>

record history_entry =
  pcm :: bytes
  azure_text :: string
  azure_translation :: "string option"

text \<open>
  The local variables of \<open>ws_asr\<close> that its closures share, and the list of effects.
  \<open>recognizer\<close> holds the recognition language of the live recognizer.
\<close>

record session =
  detect_buffer :: bytes
  current_utt_audio :: bytes
  provisional_lang :: "string option"
  lang_locked :: bool
  recognizer :: "string option"
  push_stream :: bool
  first_speech_time :: "real option"
  last_translation_text :: "string option"
  last_translation_time :: "real option"
  last_translation_embedding :: "real list option"
  utterance_history :: "history_entry list"
  effects :: "action list"

definition new_session :: session where
  "new_session =
     \<lparr>detect_buffer = [], current_utt_audio = [], provisional_lang = None,
      lang_locked = False, recognizer = None, push_stream = False,
      first_speech_time = None, last_translation_text = None,
      last_translation_time = None, last_translation_embedding = None,
      utterance_history = [], effects = []\<rparr>"

definition emit :: "action list \<Rightarrow> session \<Rightarrow> session" where
  "emit acts s = s\<lparr>effects := effects s @ acts\<rparr>"

subsection \<open>Events\<close>

definition ev_lang :: "string \<Rightarrow> json" where
  "ev_lang l = JObj [(''type'', JStr ''lang''), (''lang'', JStr l)]"

definition ev_lang_locked :: "string \<Rightarrow> json" where
  "ev_lang_locked l = JObj [(''type'', JStr ''lang_locked''), (''lang'', JStr l)]"

definition ev_partial :: "string \<Rightarrow> json" where
  "ev_partial t = JObj [(''type'', JStr ''partial''), (''text'', JStr t)]"

definition ev_mid_translate :: "string \<Rightarrow> json" where
  "ev_mid_translate t = JObj [(''type'', JStr ''mid_translate''), (''translated'', JStr t)]"

definition ev_final :: "string \<Rightarrow> json" where
  "ev_final t = JObj [(''type'', JStr ''final''), (''text'', JStr t)]"

definition ev_final_translate :: "string \<Rightarrow> bool \<Rightarrow> bool \<Rightarrow> json" where
  "ev_final_translate t provisional replace_last =
     JObj [(''type'', JStr ''final_translate''), (''translated'', JStr t),
           (''provisional'', JBool provisional), (''replace_last'', JBool replace_last)]"

definition ev_invalidate_all_asr :: json where
  "ev_invalidate_all_asr = JObj [(''type'', JStr ''invalidate_all_asr'')]"

definition ev_invalidate_all_translation :: json where
  "ev_invalidate_all_translation = JObj [(''type'', JStr ''invalidate_all_translation'')]"

definition ev_final_corrected :: "string \<Rightarrow> json" where
  "ev_final_corrected t =
     JObj [(''type'', JStr ''final''), (''text'', JStr t),
           (''corrected'', JBool True), (''replayed'', JBool True)]"

definition ev_final_translate_replayed :: "string \<Rightarrow> json" where
  "ev_final_translate_replayed t =
     JObj [(''type'', JStr ''final_translate''), (''translated'', JStr t),
           (''provisional'', JBool False), (''replace_last'', JBool False),
           (''replayed'', JBool True)]"

subsection \<open>The recognizer: \<open>start_azure\<close> and \<open>restart_azure\<close>\<close>

definition start_azure :: "string \<Rightarrow> session \<Rightarrow> session" where
  "start_azure lang s =
     (let azure_lang = azure_lang_of lang
      in emit [Recognizer_start azure_lang] (s\<lparr>recognizer := Some azure_lang, push_stream := True\<rparr>))"

text \<open>
  \<open>restart_azure\<close> stops what is there, waits 0.2 s and starts again when there is a
  provisional language (\<open>if provisional_lang:\<close> holds for a string that is not empty).
\<close>

definition restart_azure :: "session \<Rightarrow> session" where
  "restart_azure s =
     (let s1 = (if recognizer s \<noteq> None then emit [Recognizer_stop] s else s);
          s2 = (if push_stream s1 then emit [Stream_close] s1 else s1);
          s3 = emit [Sleep (2 / 10)] (s2\<lparr>recognizer := None, push_stream := False\<rparr>)
      in case provisional_lang s3 of
           None \<Rightarrow> s3
         | Some lang \<Rightarrow> if lang \<noteq> [] then start_azure lang s3 else s3)"

subsection \<open>\<open>on_partial\<close>\<close>

text \<open>
  \<open>on_partial\<close> schedules two coroutines for a hypothesis that is not empty: one sends
  the \<open>partial\<close> event, the other is \<open>send_mid_translate\<close>, which translates at once.
\<close>

definition send_mid_translate :: "string \<Rightarrow> reply \<Rightarrow> session \<Rightarrow> exn option \<times> session" where
  "send_mid_translate txt r s =
     (case azure_translate txt TARGET_LANG r of
        (acts, Inl e) \<Rightarrow> (Some e, emit acts s)
      | (acts, Inr translated) \<Rightarrow> (None, emit (acts @ [Send (ev_mid_translate translated)]) s))"

definition on_partial :: "string \<Rightarrow> reply \<Rightarrow> session \<Rightarrow> exn option \<times> session" where
  "on_partial txt r s =
     (if txt \<noteq> [] then send_mid_translate txt r (emit [Send (ev_partial txt)] s)
      else (None, s))"

subsection \<open>\<open>on_final\<close>\<close>

text \<open>
  What the collaborators answer during one call of \<open>on_final\<close>, and the readings of
  \<open>time.perf_counter\<close>.  The replies of the replay are indexed by the position of the
  history entry.
\<close>

record final_env =
  translator_reply :: reply
  embedding_reply :: reply
  clock :: real
  detect_reply :: reply
  replay_transcribe_reply :: "nat \<Rightarrow> reply"
  replay_translate_reply :: "nat \<Rightarrow> reply"
  replay_embedding_reply :: "nat \<Rightarrow> reply"
  replay_clock :: "nat \<Rightarrow> real"

definition update_last :: "('a \<Rightarrow> 'a) \<Rightarrow> 'a list \<Rightarrow> 'a list" where
  "update_last f xs = (if xs = [] then [] else butlast xs @ [f (last xs)])"

text \<open>
  Lines 310 to 327: the utterance is appended to the history, the \<open>final\<close> event is sent,
  the text is translated and the translation is stored in the entry just appended.  An
  exception of \<open>azure_translate\<close> ends the coroutine there.
\<close>

definition record_and_translate :: "string \<Rightarrow> reply \<Rightarrow> session \<Rightarrow> (exn + string) \<times> session" where
  "record_and_translate txt r s =
     (let utt_pcm = current_utt_audio s;
          history_entry = \<lparr>pcm = utt_pcm, azure_text = txt, azure_translation = None\<rparr>;
          s1 = s\<lparr>utterance_history := utterance_history s @ [history_entry]\<rparr>;
          s2 = emit [Send (ev_final txt)] s1
      in case azure_translate txt TARGET_LANG r of
           (acts, Inl e) \<Rightarrow> (Inl e, emit acts s2)
         | (acts, Inr translated) \<Rightarrow>
             (Inr translated,
              (emit acts s2)\<lparr>utterance_history :=
                 update_last (\<lambda>h. h\<lparr>azure_translation := Some translated\<rparr>)
                   (utterance_history s2)\<rparr>))"

text \<open>Lines 329 to 346: the merge decision.\<close>

definition merge_decision :: "real list option \<Rightarrow> real \<Rightarrow> session \<Rightarrow> bool" where
  "merge_decision emb now s =
     (case emb of
        None \<Rightarrow> False
      | Some e \<Rightarrow>
          (case last_translation_embedding s of
             None \<Rightarrow> False
           | Some le \<Rightarrow>
               (case last_translation_time s of
                  None \<Rightarrow> False
                | Some lt \<Rightarrow> cosine e le > 75 / 100 \<and> now - lt < 1)))"

text \<open>Lines 329 to 372: embedding, merge decision, the \<open>final_translate\<close> event.\<close>

definition merge_translation :: "string \<Rightarrow> real \<Rightarrow> reply \<Rightarrow> session \<Rightarrow> session" where
  "merge_translation translated now r s =
     (let (acts, emb) = embed_or_none translated r;
          s1 = emit acts s;
          merge = merge_decision emb now s1;
          s2 = (case (if merge then last_translation_text s1 else None) of
                  Some previous \<Rightarrow>
                    (let merged_text = previous @ '' '' @ translated
                     in (emit [Send (ev_final_translate merged_text (\<not> lang_locked s1) True)] s1)
                          \<lparr>last_translation_text := Some merged_text\<rparr>)
                | None \<Rightarrow>
                    (emit [Send (ev_final_translate translated (\<not> lang_locked s1) False)] s1)
                      \<lparr>last_translation_text := Some translated\<rparr>)
      in case emb of
           None \<Rightarrow> s2
         | Some e \<Rightarrow> s2\<lparr>last_translation_embedding := Some e, last_translation_time := Some now\<rparr>)"

text \<open>
  Lines 405 to 441: the replay loop over the history.  An exception of a Whisper call
  leaves the loop, and \<open>on_final\<close>, at that entry.
\<close>

fun replay :: "nat \<Rightarrow> history_entry list \<Rightarrow> final_env \<Rightarrow> session \<Rightarrow> exn option \<times> session" where
  "replay idx [] env s = (None, s)"
| "replay idx (entry # rest) env s =
     (case whisper_transcribe (pcm entry) (replay_transcribe_reply env idx) of
        (a1, Inl e) \<Rightarrow> (Some e, emit a1 s)
      | (a1, Inr correct_text) \<Rightarrow>
          (case whisper_translate (pcm entry) (replay_translate_reply env idx) of
             (a2, Inl e) \<Rightarrow> (Some e, emit (a1 @ a2) s)
           | (a2, Inr correct_trans) \<Rightarrow>
               (let s2 = emit (a1 @ a2) s;
                    s3 = (if py_strip correct_text \<noteq> []
                          then emit [Send (ev_final_corrected correct_text)] s2 else s2);
                    s4 = (if py_strip correct_trans \<noteq> []
                          then (let (a3, emb2) = embed_or_none correct_trans (replay_embedding_reply env idx);
                                    s5 = (emit (Send (ev_final_translate_replayed correct_trans) # a3) s3)
                                           \<lparr>last_translation_text := Some correct_trans\<rparr>
                                in case emb2 of
                                     None \<Rightarrow> s5
                                   | Some e \<Rightarrow> s5\<lparr>last_translation_embedding := Some e,
                                                  last_translation_time := Some (replay_clock env idx)\<rparr>)
                          else s3)
                in replay (Suc idx) rest env s4)))"

text \<open>Lines 389 to 450: case A, the mismatch.\<close>

definition mismatch_handler :: "string \<Rightarrow> final_env \<Rightarrow> session \<Rightarrow> exn option \<times> session" where
  "mismatch_handler detected env s =
     (let s1 = s\<lparr>last_translation_text := None, last_translation_embedding := None,
                 last_translation_time := None\<rparr>;
          s2 = emit [Send ev_invalidate_all_asr, Send ev_invalidate_all_translation] s1
      in case replay 0 (utterance_history s2) env s2 of
           (Some e, s3) \<Rightarrow> (Some e, s3)
         | (None, s3) \<Rightarrow>
             (let s4 = s3\<lparr>utterance_history := [], provisional_lang := Some detected,
                          lang_locked := True\<rparr>;
                  s5 = emit [Send (ev_lang_locked detected)] s4
              in (None, restart_azure s5)))"

text \<open>
  Lines 374 to 460: the verification of the language with the utterance's audio.  First
  the detector is asked (line 377); a session that has no provisional language yet takes
  a recognized answer as its provisional language (lines 381 and 382); then comes the
  decision: locked (lines 385 to 387), case A (mismatch), case B (match) or case C.
\<close>

definition adopt_first_detection :: "string \<Rightarrow> session \<Rightarrow> session" where
  "adopt_first_detection detected s =
     (if provisional_lang s = None \<and> in_LANG_MAP detected
      then s\<lparr>provisional_lang := Some detected\<rparr> else s)"

definition decide_language :: "string \<Rightarrow> final_env \<Rightarrow> session \<Rightarrow> exn option \<times> session" where
  "decide_language detected env s =
     (if lang_locked s then (None, s\<lparr>current_utt_audio := []\<rparr>)
      else if provisional_lang s \<noteq> None \<and> in_LANG_MAP detected
              \<and> Some detected \<noteq> provisional_lang s
      then (case mismatch_handler detected env s of
              (Some e, s') \<Rightarrow> (Some e, s')
            | (None, s') \<Rightarrow> (None, s'\<lparr>current_utt_audio := []\<rparr>))
      else if provisional_lang s \<noteq> None \<and> Some detected = provisional_lang s
      then (None, (emit [Send (ev_lang_locked detected)] (s\<lparr>lang_locked := True\<rparr>))
                     \<lparr>current_utt_audio := []\<rparr>)
      else (None, s\<lparr>current_utt_audio := []\<rparr>))"

definition verify_language :: "bytes \<Rightarrow> final_env \<Rightarrow> session \<Rightarrow> exn option \<times> session" where
  "verify_language utt_pcm env s =
     (case whisper_detect utt_pcm (detect_reply env) of
        (acts, Inl e) \<Rightarrow> (Some e, emit acts s)
      | (acts, Inr detected) \<Rightarrow>
          decide_language detected env (adopt_first_detection detected (emit acts s)))"

definition on_final :: "string \<Rightarrow> final_env \<Rightarrow> session \<Rightarrow> exn option \<times> session" where
  "on_final txt env s =
     (case record_and_translate txt (translator_reply env) s of
        (Inl e, s1) \<Rightarrow> (Some e, s1)
      | (Inr translated, s1) \<Rightarrow>
          verify_language (current_utt_audio s) env
            (merge_translation translated (clock env) (embedding_reply env) s1))"

subsection \<open>The main loop of \<open>ws_asr\<close>\<close>

text \<open>
  One iteration of \<open>async for chunk in ws.iter_bytes()\<close>.  \<open>t0\<close> and \<open>t1\<close> are the two
  readings of \<open>time.perf_counter\<close> (lines 507 and 510); \<open>r\<close> is the reply to the
  language detection, if one is issued.  An exception leaves the loop.
\<close>

definition adopt_language :: "session \<Rightarrow> session" where
  "adopt_language s =
     (case provisional_lang s of
        None \<Rightarrow> s
      | Some lang \<Rightarrow>
          if lang \<noteq> [] then
            (let s1 = start_azure lang (emit [Send (ev_lang lang)] s);
                 s2 = (if push_stream s1 \<and> detect_buffer s1 \<noteq> []
                       then emit [Stream_write (detect_buffer s1)] s1 else s1)
             in s2\<lparr>detect_buffer := []\<rparr>)
          else s)"

definition on_chunk :: "bytes \<Rightarrow> real \<Rightarrow> real \<Rightarrow> reply \<Rightarrow> session \<Rightarrow> exn option \<times> session" where
  "on_chunk chunk t0 t1 r s0 =
     (let s = s0\<lparr>current_utt_audio := current_utt_audio s0 @ chunk\<rparr>
      in if provisional_lang s = None then
           (case rms_energy chunk of
              Inl e \<Rightarrow> (Some e, s)
            | Inr energy \<Rightarrow>
                if energy < SILENCE_RMS_THRESHOLD then (None, s)
                else
                  (let first = (case first_speech_time s of None \<Rightarrow> t0 | Some t \<Rightarrow> t);
                       s1 = s\<lparr>first_speech_time := Some first,
                              detect_buffer := detect_buffer s @ chunk\<rparr>;
                       elapsed = t1 - first
                   in case (if elapsed \<ge> MIN_DETECT_SEC \<and> provisional_lang s1 = None
                            then (case whisper_detect (detect_buffer s1) r of
                                    (acts, Inl e) \<Rightarrow> (Some e, emit acts s1)
                                  | (acts, Inr lang) \<Rightarrow>
                                      (None, (emit acts s1)\<lparr>provisional_lang :=
                                         Some (if in_LANG_MAP lang then lang else ''english'')\<rparr>))
                            else (None, s1)) of
                        (Some e, s2) \<Rightarrow> (Some e, s2)
                      | (None, s2) \<Rightarrow>
                          (let s3 = (if elapsed \<ge> MAX_DETECT_SEC \<and> provisional_lang s2 = None
                                     then s2\<lparr>provisional_lang := Some ''english''\<rparr> else s2)
                           in (None, adopt_language s3))))
         else if push_stream s then (None, emit [Stream_write chunk] s)
         else (None, s))"

subsection \<open>A session as a sequence of inputs\<close>

text \<open>
  The inputs of a session are the audio chunks read by the main loop and the results the
  recognizer reports (\<open>on_partial\<close>, \<open>on_final\<close>), each with the replies and clock readings
  it will meet.  The callbacks are handed to the event loop; the model runs each of them
  to its end before the next input.  An exception inside a callback ends that coroutine
  only; an exception inside the main loop ends the session (the \<open>finally\<close> block stops the
  recognizer), and what comes after it is not looked at.
\<close>

datatype input =
    Chunk bytes real real reply
  | Partial_result string reply
  | Final_result string final_env

definition disconnect :: "session \<Rightarrow> session" where
  "disconnect s =
     (let s1 = (if recognizer s \<noteq> None then emit [Recognizer_stop] s else s)
      in if push_stream s1 then emit [Stream_close] s1 else s1)"

fun run :: "input list \<Rightarrow> session \<Rightarrow> session" where
  "run [] s = s"
| "run (Chunk chunk t0 t1 r # rest) s =
     (case on_chunk chunk t0 t1 r s of
        (Some e, s') \<Rightarrow> disconnect s'
      | (None, s') \<Rightarrow> run rest s')"
| "run (Partial_result txt r # rest) s = run rest (snd (on_partial txt r s))"
| "run (Final_result txt env # rest) s = run rest (snd (on_final txt env s))"

section \<open>The fixed-language endpoint \<open>ws_fixed\<close>\<close>

text \<open>\<open>azure_translate\<close> of \<open>ws_fixed.py\<close>: every failure gives the empty string.\<close>

definition fixed_azure_translate :: "string \<Rightarrow> string \<Rightarrow> reply \<Rightarrow> action list \<times> string" where
  "fixed_azure_translate txt target r =
     (if txt = [] \<or> py_strip txt = [] then ([], [])
      else ([Translator_post txt target],
        case r of
          Unreachable \<Rightarrow> []
        | Reply status body \<Rightarrow>
            if status \<noteq> 200 then []
            else (case body of
                    None \<Rightarrow> []
                  | Some data \<Rightarrow> (case first_translation data of Inl e \<Rightarrow> [] | Inr t \<Rightarrow> t))))"

definition fixed_send_mid_translate :: "string \<Rightarrow> reply \<Rightarrow> action list" where
  "fixed_send_mid_translate txt r =
     (if py_strip txt = [] then []
      else (let (acts, translated) = fixed_azure_translate txt TARGET_LANG r
            in acts @ (if translated \<noteq> [] then [Send (ev_mid_translate translated)] else [])))"

text \<open>
  The debounce of \<open>on_recognizing\<close>.  Each call of \<open>loop.create_task(delayed_translate())\<close>
  adds a task to the event loop: it sleeps 0.3 s and then runs \<open>send_mid_translate\<close> on
  the hypothesis it captured, unless it was cancelled while it slept.  The variable
  \<open>translate_task\<close> points to the task created last.  Time is explicit: a task that is
  still sleeping at its wake-up time runs then, and the translation it requests is
  answered at once.
\<close>

datatype task_status = Sleeping | Finished | Cancelled

record task =
  wake_time :: real
  hypothesis :: string
  status :: task_status

record fixed_session =
  last_partial_text :: string
  translate_task :: "nat option"
  tasks :: "task list"
  fixed_effects :: "action list"

definition new_fixed_session :: fixed_session where
  "new_fixed_session =
     \<lparr>last_partial_text = [], translate_task = None, tasks = [], fixed_effects = []\<rparr>"

definition DEBOUNCE_SEC :: real where
  "DEBOUNCE_SEC = 3 / 10"

text \<open>The event loop at time \<open>now\<close>: every task whose sleep is over runs.\<close>

fun wake_tasks :: "real \<Rightarrow> (string \<Rightarrow> reply) \<Rightarrow> task list \<Rightarrow> task list \<times> action list" where
  "wake_tasks now answer [] = ([], [])"
| "wake_tasks now answer (t # ts) =
     (let (ts', acts) = wake_tasks now answer ts
      in if status t = Sleeping \<and> wake_time t \<le> now
         then (t\<lparr>status := Finished\<rparr> # ts',
               fixed_send_mid_translate (hypothesis t) (answer (hypothesis t)) @ acts)
         else (t # ts', acts))"

definition run_event_loop :: "real \<Rightarrow> (string \<Rightarrow> reply) \<Rightarrow> fixed_session \<Rightarrow> fixed_session" where
  "run_event_loop now answer s =
     (let (ts', acts) = wake_tasks now answer (tasks s)
      in s\<lparr>tasks := ts', fixed_effects := fixed_effects s @ acts\<rparr>)"

text \<open>\<open>task.cancel()\<close>: only a task that has not finished is affected.\<close>

definition cancel :: "task \<Rightarrow> task" where
  "cancel t = (if status t = Sleeping then t\<lparr>status := Cancelled\<rparr> else t)"

definition on_recognizing :: "real \<Rightarrow> string \<Rightarrow> fixed_session \<Rightarrow> fixed_session" where
  "on_recognizing now txt s =
     (if txt = [] then s
      else
        (let s1 = s\<lparr>fixed_effects := fixed_effects s @ [Send (ev_partial txt)]\<rparr>
         in if txt = last_partial_text s1 then s1
            else
              (let s2 = s1\<lparr>last_partial_text := txt\<rparr>;
                   s3 = (case translate_task s2 of
                           None \<Rightarrow> s2
                         | Some i \<Rightarrow> s2\<lparr>tasks := (tasks s2)[i := cancel (tasks s2 ! i)]\<rparr>)
               in s3\<lparr>tasks := tasks s3 @ [\<lparr>wake_time = now + DEBOUNCE_SEC, hypothesis = txt,
                                            status = Sleeping\<rparr>],
                      translate_task := Some (length (tasks s3))\<rparr>)))"

text \<open>
  A run of the fixed endpoint: partial hypotheses with their arrival times, and at the
  end the time up to which the event loop is watched.
\<close>

fun fixed_run :: "(string \<Rightarrow> reply) \<Rightarrow> (real \<times> string) list \<Rightarrow> real \<Rightarrow> fixed_session \<Rightarrow> fixed_session" where
  "fixed_run answer [] until s = run_event_loop until answer s"
| "fixed_run answer ((now, txt) # rest) until s =
     fixed_run answer rest until (on_recognizing now txt (run_event_loop now answer s))"

definition is_translation_request :: "action \<Rightarrow> bool" where
  "is_translation_request a = (case a of Translator_post t l \<Rightarrow> True | _ \<Rightarrow> False)"

section \<open>The main loop of \<open>ws_multilang_adaptive\<close>\<close>

text \<open>
  The adaptive endpoint segments the stream by energy.  One iteration of its loop, with
  the reading \<open>now\<close> of \<open>time.perf_counter\<close>; \<open>handle_utterance\<close> runs as a task of its
  own and is recorded as an effect.  (Python's \<open>if last_voice_time\<close> is false for
  \<open>None\<close> and for \<open>0.0\<close>.)
\<close>

record multilang_session =
  ml_current_utt_audio :: bytes
  last_voice_time :: "real option"
  ml_effects :: "action list"

definition new_multilang_session :: multilang_session where
  "new_multilang_session =
     \<lparr>ml_current_utt_audio = [], last_voice_time = None, ml_effects = []\<rparr>"

definition SILENCE_RMS :: real where
  "SILENCE_RMS = 300"

definition SILENCE_SEC :: real where
  "SILENCE_SEC = 8 / 10"

definition multilang_on_chunk ::
  "bytes \<Rightarrow> real \<Rightarrow> multilang_session \<Rightarrow> exn option \<times> multilang_session" where
  "multilang_on_chunk chunk now s0 =
     (let s = s0\<lparr>ml_current_utt_audio := ml_current_utt_audio s0 @ chunk,
                 ml_effects := ml_effects s0 @ [Stream_write chunk]\<rparr>
      in case rms_energy chunk of
           Inl e \<Rightarrow> (Some e, s)
         | Inr energy \<Rightarrow>
             if energy > SILENCE_RMS then (None, s\<lparr>last_voice_time := Some now\<rparr>)
             else (case last_voice_time s of
                     None \<Rightarrow> (None, s)
                   | Some t \<Rightarrow>
                       if t \<noteq> 0 \<and> now - t > SILENCE_SEC \<and> ml_current_utt_audio s \<noteq> []
                       then (None, s\<lparr>ml_current_utt_audio := [], last_voice_time := None,
                                     ml_effects := ml_effects s @
                                       [Handle_utterance (ml_current_utt_audio s)]\<rparr>)
                       else (None, s)))"

section \<open>Notions used in the statements\<close>

text \<open>
  An input is a quiet chunk when its RMS energy is computed and lies below the
  threshold.
\<close>

fun quiet_chunk :: "input \<Rightarrow> bool" where
  "quiet_chunk (Chunk chunk t0 t1 r) =
     (case rms_energy chunk of Inr e \<Rightarrow> e < SILENCE_RMS_THRESHOLD | Inl x \<Rightarrow> False)"
| "quiet_chunk _ = False"

fun chunk_bytes :: "input \<Rightarrow> bytes" where
  "chunk_bytes (Chunk chunk t0 t1 r) = chunk"
| "chunk_bytes _ = []"

definition is_detect_post :: "action \<Rightarrow> bool" where
  "is_detect_post a = (case a of Whisper_detect_post b \<Rightarrow> True | _ \<Rightarrow> False)"

text \<open>
  The duration of PCM audio: 16 kHz, mono, 16 bit, that is 32000 bytes per second (the
  byte rate that \<open>pcm_to_wav\<close> writes into the WAV header).
\<close>

definition audio_seconds :: "bytes \<Rightarrow> real" where
  "audio_seconds b = real (length b) / 32000"

section \<open>Example replies\<close>

text \<open>Well-formed answers of the collaborators, for the concrete runs below.\<close>

definition detected_as :: "string \<Rightarrow> reply" where
  "detected_as l = Reply 200 (Some (JObj [(''language'', JStr l)]))"

definition transcribed_as :: "string \<Rightarrow> reply" where
  "transcribed_as t = Reply 200 (Some (JObj [(''text'', JStr t)]))"

definition translated_as :: "string \<Rightarrow> reply" where
  "translated_as t =
     Reply 200 (Some (JArr [JObj [(''translations'', JArr [JObj [(''text'', JStr t)]])]]))"

definition embedded_as :: "real list \<Rightarrow> reply" where
  "embedded_as v =
     Reply 200 (Some (JObj [(''data'', JArr [JObj [(''embedding'', JArr (map JNum v))]])]))"

text \<open>
  The answer of Azure Translator to a request it refuses: status 401 and an error
  object.
\<close>

definition denied :: reply where
  "denied =
     Reply 401 (Some (JObj [(''error'',
       JObj [(''code'', JNum 401000), (''message'', JStr ''credentials missing'')])]))"

text \<open>
  An environment in which every collaborator answers: the utterance is translated as
  \<open>hello\<close>, the detector hears the language \<open>l\<close>, and the replay transcribes every entry
  as \<open>konnichiwa\<close> and translates it as \<open>hello\<close>.
\<close>

definition example_env :: "string \<Rightarrow> final_env" where
  "example_env l =
     \<lparr>translator_reply = translated_as ''hello'', embedding_reply = embedded_as [1, 0],
      clock = 10, detect_reply = detected_as l,
      replay_transcribe_reply = (\<lambda>i. transcribed_as ''konnichiwa''),
      replay_translate_reply = (\<lambda>i. transcribed_as ''hello''),
      replay_embedding_reply = (\<lambda>i. embedded_as [1, 0]),
      replay_clock = (\<lambda>i. 11)\<rparr>"

text \<open>Voiced audio: \<open>n\<close> samples of amplitude 1000.\<close>

definition loud_audio :: "nat \<Rightarrow> bytes" where
  "loud_audio n = concat (replicate n [0xE8, 0x03])"

text \<open>
  The second session extends the first one: its effects are those of the first, followed
  by more.
\<close>

definition grows :: "session \<Rightarrow> session \<Rightarrow> bool" where
  "grows s s' = (\<exists>rest. effects s' = effects s @ rest)"

text \<open>
  The merge condition in the words of the specification: a merge context (text,
  embedding and timestamp) exists, an embedding of the new translation was obtained, the
  cosine similarity of the two embeddings is above 0.75 and less than one second has
  passed since the previous translation.
\<close>

definition merge_expected :: "real list option \<Rightarrow> real \<Rightarrow> session \<Rightarrow> bool" where
  "merge_expected emb now s =
     (last_translation_text s \<noteq> None \<and> last_translation_embedding s \<noteq> None \<and>
      last_translation_time s \<noteq> None \<and> emb \<noteq> None \<and>
      cosine (the emb) (the (last_translation_embedding s)) > 75 / 100 \<and>
      now - the (last_translation_time s) < 1)"


text \<open>
  The rollback replay in the words of the specification.  For every ledger entry, in
  the original order: a corrected transcript and a corrected translation are obtained
  from the entry's audio; a corrective \<open>final\<close> event is sent unless the transcript is
  blank, and a corrective \<open>final_translate\<close> event (followed by the request for its
  embedding) unless the translation is blank.  \<open>replay_returns\<close> says that every Whisper
  call of the replay returns; \<open>replay_context\<close> is the merge context that the replay
  leaves: that of the last entry whose translation was not blank.
\<close>

definition corrected_text :: "final_env \<Rightarrow> nat \<Rightarrow> history_entry \<Rightarrow> string" where
  "corrected_text env idx entry =
     (case snd (whisper_transcribe (pcm entry) (replay_transcribe_reply env idx)) of
        Inr t \<Rightarrow> t | Inl e \<Rightarrow> [])"

definition corrected_translation :: "final_env \<Rightarrow> nat \<Rightarrow> history_entry \<Rightarrow> string" where
  "corrected_translation env idx entry =
     (case snd (whisper_translate (pcm entry) (replay_translate_reply env idx)) of
        Inr t \<Rightarrow> t | Inl e \<Rightarrow> [])"

definition returned :: "exn + 'a \<Rightarrow> bool" where
  "returned r = (case r of Inr v \<Rightarrow> True | Inl e \<Rightarrow> False)"

fun replay_returns :: "nat \<Rightarrow> history_entry list \<Rightarrow> final_env \<Rightarrow> bool" where
  "replay_returns idx [] env = True"
| "replay_returns idx (entry # rest) env =
     (returned (snd (whisper_transcribe (pcm entry) (replay_transcribe_reply env idx))) \<and>
      returned (snd (whisper_translate (pcm entry) (replay_translate_reply env idx))) \<and>
      replay_returns (Suc idx) rest env)"

fun replay_expected :: "nat \<Rightarrow> history_entry list \<Rightarrow> final_env \<Rightarrow> action list" where
  "replay_expected idx [] env = []"
| "replay_expected idx (entry # rest) env =
     fst (whisper_transcribe (pcm entry) (replay_transcribe_reply env idx)) @
     fst (whisper_translate (pcm entry) (replay_translate_reply env idx)) @
     (if py_strip (corrected_text env idx entry) = [] then []
      else [Send (ev_final_corrected (corrected_text env idx entry))]) @
     (if py_strip (corrected_translation env idx entry) = [] then []
      else Send (ev_final_translate_replayed (corrected_translation env idx entry)) #
           fst (embed_or_none (corrected_translation env idx entry)
                  (replay_embedding_reply env idx))) @
     replay_expected (Suc idx) rest env"

type_synonym merge_context = "string option \<times> real list option \<times> real option"

definition merge_context_of :: "session \<Rightarrow> merge_context" where
  "merge_context_of s =
     (last_translation_text s, last_translation_embedding s, last_translation_time s)"

definition with_merge_context :: "merge_context \<Rightarrow> session \<Rightarrow> session" where
  "with_merge_context c s =
     s\<lparr>last_translation_text := fst c, last_translation_embedding := fst (snd c),
       last_translation_time := snd (snd c)\<rparr>"

fun replay_context :: "nat \<Rightarrow> history_entry list \<Rightarrow> final_env \<Rightarrow> merge_context \<Rightarrow> merge_context" where
  "replay_context idx [] env c = c"
| "replay_context idx (entry # rest) env c =
     replay_context (Suc idx) rest env
       (if py_strip (corrected_translation env idx entry) = [] then c
        else (case snd (embed_or_none (corrected_translation env idx entry)
                          (replay_embedding_reply env idx)) of
                None \<Rightarrow> (Some (corrected_translation env idx entry), snd c)
              | Some v \<Rightarrow> (Some (corrected_translation env idx entry), Some v,
                            Some (replay_clock env idx))))"

text \<open>
  A session on its way: the first voiced chunk was detected as Japanese, a first
  utterance was recognized and translated while the detector could not tell its language
  (case C), and audio of a second utterance has arrived.
\<close>

definition japanese_session :: session where
  "japanese_session =
     run [Chunk [0xE8, 0x03] 1 2 (detected_as ''Japanese''),
          Final_result ''a'' (example_env ''unknown''),
          Chunk [0x10, 0x27] 3 3 Unreachable] new_session"

definition japanese_effects :: "action list" where
  "japanese_effects =
     [Whisper_detect_post [0xE8, 0x03], Send (ev_lang ''japanese''),
      Recognizer_start ''ja-JP'', Stream_write [0xE8, 0x03],
      Send (ev_final ''a''), Translator_post ''a'' ''en'', Embedding_post ''hello'',
      Send (ev_final_translate ''hello'' True False), Whisper_detect_post [0xE8, 0x03],
      Stream_write [0x10, 0x27]]"

text \<open>
  The environment of a mismatch: the detector hears English; in the replay the
  transcription of the first entry fails with status 500.
\<close>

definition mismatch_env :: final_env where
  "mismatch_env =
     (example_env ''english'')
       \<lparr>clock := 20,
        replay_transcribe_reply :=
          (\<lambda>i. if i = 0 then Reply 500 None else transcribed_as ''konnichiwa'')\<rparr>"

text \<open>
  The session after a verified match (case B) of its second utterance, with audio of a
  third utterance.
\<close>

definition locked_session :: session where
  "locked_session =
     run [Final_result ''konnichiwa'' ((example_env ''japanese'')\<lparr>clock := 20\<rparr>),
          Chunk [0xE8, 0x03] 25 25 Unreachable]
       japanese_session"

definition locked_effects :: "action list" where
  "locked_effects =
     japanese_effects @
     [Send (ev_final ''konnichiwa''), Translator_post ''konnichiwa'' ''en'',
      Embedding_post ''hello'', Send (ev_final_translate ''hello'' True False),
      Whisper_detect_post [0x10, 0x27], Send (ev_lang_locked ''japanese''),
      Stream_write [0xE8, 0x03]]"

text \<open>
  The actions of a rollback: the two invalidation events, the corrective events (they
  carry \<open>replayed\<close>) and the Whisper requests of the replay.
\<close>

definition is_replayed :: "json \<Rightarrow> bool" where
  "is_replayed ev = (case ev of JObj kv \<Rightarrow> map_of kv ''replayed'' = Some (JBool True) | _ \<Rightarrow> False)"

definition is_rollback_action :: "action \<Rightarrow> bool" where
  "is_rollback_action a =
     (case a of
        Send ev \<Rightarrow> ev = ev_invalidate_all_asr \<or> ev = ev_invalidate_all_translation \<or> is_replayed ev
      | Whisper_transcribe_post b \<Rightarrow> True
      | Whisper_translate_post b \<Rightarrow> True
      | _ \<Rightarrow> False)"

definition rollback_free :: "action list \<Rightarrow> bool" where
  "rollback_free acts = (filter is_rollback_action acts = [])"

text \<open>
  The second session has the lock state of the first and the same rollback actions: no
  rollback action lies between them.
\<close>

definition same_rollback :: "session \<Rightarrow> session \<Rightarrow> bool" where
  "same_rollback s s' =
     (lang_locked s' = lang_locked s \<and>
      filter is_rollback_action (effects s') = filter is_rollback_action (effects s))"

text \<open>
  An environment in which the first transcription request of the replay fails with a
  connection error, and the session that \<open>on_final\<close> leaves behind in it.
\<close>

definition abort_env :: final_env where
  "abort_env =
     (example_env ''english'')\<lparr>clock := 20, replay_transcribe_reply := (\<lambda>i. Unreachable)\<rparr>"

definition aborted_session :: session where
  "aborted_session =
     japanese_session
       \<lparr>last_translation_text := None, last_translation_time := None,
        last_translation_embedding := None,
        utterance_history :=
          [\<lparr>pcm = [0xE8, 0x03], azure_text = ''a'', azure_translation = Some ''hello''\<rparr>,
           \<lparr>pcm = [0x10, 0x27], azure_text = ''konnichiwa'',
            azure_translation = Some ''hello''\<rparr>],
        effects := japanese_effects @
          [Send (ev_final ''konnichiwa''), Translator_post ''konnichiwa'' ''en'',
           Embedding_post ''hello'', Send (ev_final_translate ''hello'' True False),
           Whisper_detect_post [0x10, 0x27],
           Send ev_invalidate_all_asr, Send ev_invalidate_all_translation,
           Whisper_transcribe_post [0xE8, 0x03]]\<rparr>"

text \<open>
  The number of \<open>invalidate_all_asr\<close> events, and the runs in which every call of
  \<open>on_final\<close> ends without an exception.
\<close>

definition invalidations :: "action list \<Rightarrow> nat" where
  "invalidations acts = length (filter (\<lambda>a. a = Send ev_invalidate_all_asr) acts)"

fun callbacks_complete :: "input list \<Rightarrow> session \<Rightarrow> bool" where
  "callbacks_complete [] s = True"
| "callbacks_complete (Chunk chunk t0 t1 r # rest) s =
     (case on_chunk chunk t0 t1 r s of
        (Some e, s') \<Rightarrow> True
      | (None, s') \<Rightarrow> callbacks_complete rest s')"
| "callbacks_complete (Partial_result t r # rest) s =
     callbacks_complete rest (snd (on_partial t r s))"
| "callbacks_complete (Final_result t env # rest) s =
     (fst (on_final t env s) = None \<and> callbacks_complete rest (snd (on_final t env s)))"

text \<open>
  Partial hypotheses in quick succession: each one is not empty, differs from the one
  before it and arrives less than \<open>DEBOUNCE_SEC\<close> after it.
\<close>

fun rapid :: "real \<Rightarrow> string \<Rightarrow> (real \<times> string) list \<Rightarrow> bool" where
  "rapid t0 x0 [] = True"
| "rapid t0 x0 ((t, x) # rest) =
     (t0 \<le> t \<and> t < t0 + DEBOUNCE_SEC \<and> x \<noteq> [] \<and> x \<noteq> x0 \<and> rapid t x rest)"

text \<open>
  The state of the debounce after the hypothesis \<open>x\<close> arrived at time \<open>t\<close>: its task is
  the only one still sleeping, the variable \<open>translate_task\<close> points to it, and no
  translation was requested so far.
\<close>

definition only_last_pending :: "fixed_session \<Rightarrow> real \<Rightarrow> string \<Rightarrow> bool" where
  "only_last_pending s t x =
     (\<exists>ts. tasks s = ts @ [\<lparr>wake_time = t + DEBOUNCE_SEC, hypothesis = x, status = Sleeping\<rparr>] \<and>
           list_all (\<lambda>k. status k \<noteq> Sleeping) ts \<and>
           translate_task s = Some (length ts) \<and>
           last_partial_text s = x \<and>
           filter is_translation_request (fixed_effects s) = [])"

text \<open>
  Two properties of every session that a run reaches from \<open>new_session\<close>: a merge
  context with an embedding also has a text and a timestamp, and a locked session has a
  provisional language.
\<close>

definition context_complete :: "session \<Rightarrow> bool" where
  "context_complete s =
     (last_translation_embedding s = None \<or>
      (last_translation_text s \<noteq> None \<and> last_translation_time s \<noteq> None))"

definition locked_has_language :: "session \<Rightarrow> bool" where
  "locked_has_language s = (provisional_lang s \<noteq> None \<or> \<not> lang_locked s)"

definition well_formed :: "session \<Rightarrow> bool" where
  "well_formed s = (context_complete s \<and> locked_has_language s)"

text \<open>
  An environment of a mismatch in which only the first request of the replay fails: the
  transcription request for the first ledger entry cannot connect.
\<close>

definition first_request_fails :: final_env where
  "first_request_fails =
     (example_env ''english'')
       \<lparr>clock := 20,
        replay_transcribe_reply :=
          (\<lambda>i. if i = 0 then Unreachable else transcribed_as ''konnichiwa'')\<rparr>"

text \<open>
  A session that has heard one voiced chunk, at time 0, and waits for more: no
  provisional language yet, the chunk in the detection buffer.
\<close>

definition waiting_session :: session where
  "waiting_session = run [Chunk [0xE8, 0x03] 0 0 Unreachable] new_session"

section \<open>Evaluation\<close>

lemmas reply_defs = detected_as_def transcribed_as_def translated_as_def embedded_as_def
  example_env_def denied_def

lemmas call_defs = whisper_detect_def whisper_transcribe_def whisper_translate_def
  azure_translate_def embed_def embed_or_none_def first_translation_def and_then_def
  py_strip_def is_space_def py_lower_def lower_char_def TARGET_LANG_def

lemmas session_defs = on_chunk_def adopt_language_def start_azure_def restart_azure_def
  on_final_def record_and_translate_def merge_translation_def merge_decision_def
  verify_language_def decide_language_def adopt_first_detection_def
  mismatch_handler_def emit_def update_last_def new_session_def
  in_LANG_MAP_def azure_lang_of_def LANG_MAP_def SILENCE_RMS_THRESHOLD_def
  MIN_DETECT_SEC_def MAX_DETECT_SEC_def disconnect_def on_partial_def send_mid_translate_def
  Let_def

section \<open>Chunk energy\<close>

lemma rms_energy_odd: "odd (length b) \<Longrightarrow> rms_energy b = Inl StructError"
proof -
  assume "odd (length b)"
  then have "length b \<noteq> 2 * (length b div 2)" and "b \<noteq> []"
    by (auto elim: oddE)
  then show ?thesis
    by (simp add: rms_energy_def unpack_h_def)
qed

lemma sum_squares_nonneg: "0 \<le> sum_list (map (\<lambda>s. s * s) (ss :: int list))"
  by (induction ss) auto

lemma rms_energy_even: "even (length b) \<Longrightarrow> \<exists>e. rms_energy b = Inr e \<and> 0 \<le> e"
  by (auto simp: rms_energy_def unpack_h_def sum_squares_nonneg intro!: divide_nonneg_nonneg)

lemma rms_energy_silence: "rms_energy [0, 0] = Inr 0"
  by (simp add: rms_energy_def unpack_h_def)

lemma rms_energy_loud: "rms_energy [0xE8, 0x03] = Inr 1000"
proof -
  have "sint (word_cat (3 :: 8 word) (232 :: 8 word) :: 16 word) = 1000"
    by (simp add: word_cat_eq)
  moreover have "sqrt 1000000 = 1000"
    by (rule real_sqrt_unique) simp_all
  ultimately show ?thesis
    by (simp add: rms_energy_def unpack_h_def)
qed

lemma samples_replicate:
  "samples (concat (replicate n [lo, hi])) = replicate n (sint (word_cat hi lo :: 16 word))"
  by (induction n) simp_all

lemma sum_list_squares_replicate:
  "sum_list (map (\<lambda>s. s * s) (replicate n (x::int))) = int n * (x * x)"
  by (induction n) (simp_all add: algebra_simps)

lemma rms_energy_replicate:
  assumes "0 < n"
  shows "rms_energy (concat (replicate n [lo, hi]))
           = Inr \<bar>real_of_int (sint (word_cat hi lo :: 16 word))\<bar>"
proof -
  define x where "x = sint (word_cat hi lo :: 16 word)"
  define b where "b = concat (replicate n [lo, hi])"
  have ne: "b \<noteq> []"
    using assms by (cases n) (simp_all add: b_def)
  have len: "length b = 2 * n"
    unfolding b_def by (induction n) simp_all
  have un: "unpack_h b = Inr (replicate n x)"
    by (simp add: unpack_h_def len) (simp add: b_def x_def samples_replicate)
  have "real_of_int (sum_list (map (\<lambda>s. s * s) (replicate n x))) = real n * (real_of_int x)\<^sup>2"
    by (simp only: sum_list_squares_replicate) (simp add: power2_eq_square)
  then have "real_of_int (sum_list (map (\<lambda>s. s * s) (replicate n x)))
               / real (length (replicate n x)) = (real_of_int x)\<^sup>2"
    using assms by simp
  then have "rms_energy b = Inr (sqrt ((real_of_int x)\<^sup>2))"
    using ne by (simp only: rms_energy_def un if_False sum.case)
  then show ?thesis
    by (simp add: b_def x_def)
qed

text \<open>
  Claim C10 (per-chunk processing is total over arbitrary chunk sizes).  The code does
  not have this property: for a frame with an odd number of bytes \<open>struct.unpack\<close> is
  given a format for \<open>len(pcm) // 2\<close> samples and a buffer one byte longer, and raises
  \<open>struct.error\<close>.  While no provisional language exists the main loop of \<open>ws_asr\<close>
  calls \<open>rms_energy\<close> on every chunk, so a three-byte first frame ends the session with
  that exception.  (\<open>ws_multilang_adaptive.py\<close> has the same \<open>rms_energy\<close> and calls it on
  every chunk.)
\<close>

theorem rms_energy_raises_on_three_bytes:
  "rms_energy [0, 1, 2] = Inl StructError \<and>
   on_chunk [0, 1, 2] 0 0 Unreachable new_session
     = (Some StructError, new_session\<lparr>current_utt_audio := [0, 1, 2]\<rparr>) \<and>
   run [Chunk [0, 1, 2] 0 0 Unreachable] new_session
     = new_session\<lparr>current_utt_audio := [0, 1, 2]\<rparr> \<and>
   multilang_on_chunk [0, 1, 2] 0 new_multilang_session
     = (Some StructError,
        new_multilang_session\<lparr>ml_current_utt_audio := [0, 1, 2],
                                ml_effects := [Stream_write [0, 1, 2]]\<rparr>)"
  by (simp add: rms_energy_def unpack_h_def on_chunk_def new_session_def disconnect_def
      multilang_on_chunk_def new_multilang_session_def)

section \<open>Collaborator failures\<close>

lemma whisper_detect_non_success:
  "st \<noteq> 200 \<Longrightarrow> snd (whisper_detect b (Reply st body)) = Inr ''unknown''"
  by (simp add: whisper_detect_def)

lemma whisper_transcribe_non_success:
  "st \<noteq> 200 \<Longrightarrow> snd (whisper_transcribe b (Reply st body)) = Inr []"
  by (simp add: whisper_transcribe_def)

lemma whisper_translate_non_success:
  "st \<noteq> 200 \<Longrightarrow> snd (whisper_translate b (Reply st body)) = Inr []"
  by (simp add: whisper_translate_def)

lemma embed_or_none_non_success:
  "st \<noteq> 200 \<Longrightarrow> snd (embed_or_none t (Reply st body)) = None"
  by (simp add: embed_or_none_def embed_def)

lemma fixed_azure_translate_non_success:
  "st \<noteq> 200 \<Longrightarrow> snd (fixed_azure_translate t target (Reply st body)) = []"
  by (simp add: fixed_azure_translate_def)

text \<open>
  Claim C7 (a collaborator's non-success response never aborts; the translation-to-target
  call fails closed to the empty string).  The language detector, the transcription, the
  audio translation and the embedding of \<open>main.py\<close> look at the status and give
  \<open>"unknown"\<close>, \<open>""\<close> or \<open>None\<close> (the lemmas above), and \<open>azure_translate\<close> of \<open>ws_fixed.py\<close>
  gives \<open>""\<close>.  \<open>azure_translate\<close> of \<open>main.py\<close> does not look at the status: it indexes
  the error object with \<open>[0]\<close> and raises \<open>KeyError\<close>.  In \<open>on_final\<close> the exception is not
  caught: the coroutine ends after the \<open>final\<close> event, with no \<open>final_translate\<close> event,
  no language verification, and the utterance audio not cleared.
\<close>

theorem azure_translate_raises_on_denied:
  "azure_translate ''hello'' TARGET_LANG denied
     = ([Translator_post ''hello'' ''en''], Inl KeyError) \<and>
   fixed_azure_translate ''hello'' TARGET_LANG denied
     = ([Translator_post ''hello'' ''en''], []) \<and>
   on_final ''hello'' (env\<lparr>translator_reply := denied\<rparr>) s
     = (Some KeyError,
        s\<lparr>utterance_history := utterance_history s @
              [\<lparr>pcm = current_utt_audio s, azure_text = ''hello'', azure_translation = None\<rparr>],
          effects := effects s @ [Send (ev_final ''hello''), Translator_post ''hello'' ''en'']\<rparr>)"
  by (simp add: azure_translate_def fixed_azure_translate_def denied_def first_translation_def
      and_then_def py_strip_def is_space_def TARGET_LANG_def on_final_def
      record_and_translate_def emit_def)

section \<open>Chunks below the energy threshold\<close>

lemma on_chunk_quiet:
  assumes "rms_energy chunk = Inr e" "e < SILENCE_RMS_THRESHOLD"
  shows "on_chunk chunk t0 t1 r s =
    (None, let s' = s\<lparr>current_utt_audio := current_utt_audio s @ chunk\<rparr>
           in if provisional_lang s = None then s'
              else if push_stream s then emit [Stream_write chunk] s' else s')"
  using assms by (simp add: on_chunk_def Let_def)

lemma on_chunk_quiet_fields:
  assumes "rms_energy chunk = Inr e" "e < SILENCE_RMS_THRESHOLD"
  shows "fst (on_chunk chunk t0 t1 r s) = None"
    and "detect_buffer (snd (on_chunk chunk t0 t1 r s)) = detect_buffer s"
    and "first_speech_time (snd (on_chunk chunk t0 t1 r s)) = first_speech_time s"
    and "filter is_detect_post (effects (snd (on_chunk chunk t0 t1 r s)))
           = filter is_detect_post (effects s)"
  by (simp_all add: on_chunk_quiet [OF assms] Let_def emit_def is_detect_post_def)

lemma run_chunk_returns:
  "fst (on_chunk chunk t0 t1 r s) = None \<Longrightarrow>
   run (Chunk chunk t0 t1 r # rest) s = run rest (snd (on_chunk chunk t0 t1 r s))"
  by (cases "on_chunk chunk t0 t1 r s") auto

lemma quiet_run_keeps_detection_state:
  "list_all quiet_chunk ins \<Longrightarrow>
   detect_buffer (run ins s) = detect_buffer s \<and>
   first_speech_time (run ins s) = first_speech_time s \<and>
   filter is_detect_post (effects (run ins s)) = filter is_detect_post (effects s)"
proof (induction ins arbitrary: s)
  case Nil
  then show ?case by simp
next
  case (Cons i ins)
  from Cons.prems have q: "quiet_chunk i" and qs: "list_all quiet_chunk ins"
    by simp_all
  from q obtain chunk t0 t1 r e where
    i: "i = Chunk chunk t0 t1 r" and e: "rms_energy chunk = Inr e" "e < SILENCE_RMS_THRESHOLD"
    by (cases i) (auto split: sum.splits)
  show ?case
    unfolding i
    by (simp only: run_chunk_returns [OF on_chunk_quiet_fields(1) [OF e]]
        Cons.IH [OF qs] on_chunk_quiet_fields(2-4) [OF e] simp_thms)
qed

lemma quiet_step_undetected:
  assumes "quiet_chunk i" "provisional_lang s = None"
  shows "run (i # rest) s
           = run rest (s\<lparr>current_utt_audio := current_utt_audio s @ chunk_bytes i\<rparr>)"
  using assms by (cases i) (auto simp: on_chunk_def split: sum.splits)

lemma quiet_run_undetected:
  "list_all quiet_chunk ins \<Longrightarrow> provisional_lang s = None \<Longrightarrow>
   run ins s = s\<lparr>current_utt_audio := current_utt_audio s @ concat (map chunk_bytes ins)\<rparr>"
proof (induction ins arbitrary: s)
  case Nil
  then show ?case by simp
next
  case (Cons i ins)
  then show ?case by (simp add: quiet_step_undetected)
qed

text \<open>
  Claim C8, as written, says that chunks below the threshold that arrive before any
  speech are discarded entirely.  They are not: the main loop appends every chunk to
  \<open>current_utt_audio\<close> before it looks at the energy (line 498), so a silent chunk stays in
  the buffer of the current utterance, and with the first utterance it is posted to the
  language detector by \<open>on_final\<close>.
\<close>

theorem quiet_chunk_is_kept_in_utterance_audio:
  "rms_energy [0, 0] = Inr 0 \<and> (0 :: real) < SILENCE_RMS_THRESHOLD \<and>
   current_utt_audio (snd (on_chunk [0, 0] 0 0 Unreachable new_session)) = [0, 0] \<and>
   snd (on_chunk [0, 0] 0 0 Unreachable new_session) \<noteq> new_session \<and>
   Whisper_detect_post [0, 0, 0xE8, 0x03] \<in> set (effects (run
     [Chunk [0, 0] 0 0 Unreachable,
      Chunk [0xE8, 0x03] 1 2 (detected_as ''Japanese''),
      Final_result ''konnichiwa'' (example_env ''japanese'')] new_session))"
proof -
  have 1: "on_chunk [0, 0] 0 0 Unreachable new_session
             = (None, new_session\<lparr>current_utt_audio := [0, 0]\<rparr>)"
    by (simp add: session_defs rms_energy_silence)
  have 2: "on_chunk [0xE8, 0x03] 1 2 (detected_as ''Japanese'')
             (new_session\<lparr>current_utt_audio := [0, 0]\<rparr>)
           = (None, new_session\<lparr>detect_buffer := [], current_utt_audio := [0, 0, 0xE8, 0x03],
                provisional_lang := Some ''japanese'', recognizer := Some ''ja-JP'',
                push_stream := True, first_speech_time := Some 1,
                effects := [Whisper_detect_post [0xE8, 0x03], Send (ev_lang ''japanese''),
                  Recognizer_start ''ja-JP'', Stream_write [0xE8, 0x03]]\<rparr>)"
    by (simp add: session_defs rms_energy_loud call_defs reply_defs)
  have 3: "Whisper_detect_post [0, 0, 0xE8, 0x03] \<in> set (effects (snd
             (on_final ''konnichiwa'' (example_env ''japanese'')
               (new_session\<lparr>detect_buffer := [], current_utt_audio := [0, 0, 0xE8, 0x03],
                  provisional_lang := Some ''japanese'', recognizer := Some ''ja-JP'',
                  push_stream := True, first_speech_time := Some 1,
                  effects := [Whisper_detect_post [0xE8, 0x03], Send (ev_lang ''japanese''),
                    Recognizer_start ''ja-JP'', Stream_write [0xE8, 0x03]]\<rparr>))))"
    by (simp add: session_defs call_defs reply_defs)
  have 4: "new_session\<lparr>current_utt_audio := [0, 0]\<rparr> \<noteq> new_session"
    by (simp add: new_session_def)
  show ?thesis
    by (simp add: 1 2 3 4 rms_energy_silence SILENCE_RMS_THRESHOLD_def)
qed

text \<open>
  Claim C8, amended.  For every sequence of chunks whose RMS energy is below the
  threshold, whatever the state of the session: the detection buffer does not change,
  the start of the detection timing does not change, and no language-detection request
  is issued.  While no provisional language exists, all that such chunks do is extend
  the buffer of the current utterance: nothing is sent, neither to the client nor to a
  collaborator nor to the recognizer.
\<close>

theorem quiet_chunks_only_extend_utterance_audio:
  assumes "list_all quiet_chunk ins"
  shows "detect_buffer (run ins s) = detect_buffer s \<and>
         first_speech_time (run ins s) = first_speech_time s \<and>
         filter is_detect_post (effects (run ins s)) = filter is_detect_post (effects s) \<and>
         (provisional_lang s = None \<longrightarrow>
            run ins s = s\<lparr>current_utt_audio :=
                            current_utt_audio s @ concat (map chunk_bytes ins)\<rparr>)"
  using assms quiet_run_keeps_detection_state [of ins s] quiet_run_undetected [of ins s]
  by simp

theorem quiet_chunks_only_extend_utterance_audio_witness:
  "list_all quiet_chunk [Chunk [0, 0] 0 0 Unreachable, Chunk [0, 0] 1 2 Unreachable] \<and>
   provisional_lang new_session = None \<and>
   run [Chunk [0, 0] 0 0 Unreachable, Chunk [0, 0] 1 2 Unreachable] new_session
     = new_session\<lparr>current_utt_audio := [0, 0, 0, 0]\<rparr> \<and>
   detect_buffer (run [Chunk [0, 0] 0 0 Unreachable, Chunk [0, 0] 1 2 Unreachable] new_session)
     = []"
proof -
  have q: "list_all quiet_chunk [Chunk [0, 0] 0 0 Unreachable, Chunk [0, 0] 1 2 Unreachable]"
    by (simp add: rms_energy_silence SILENCE_RMS_THRESHOLD_def)
  have n: "provisional_lang new_session = None" "detect_buffer new_session = []"
    "current_utt_audio new_session = []"
    by (simp_all add: new_session_def)
  show ?thesis
    using q n quiet_chunks_only_extend_utterance_audio [OF q, of new_session]
    by simp
qed

section \<open>Acquiring the provisional language\<close>

lemma length_loud_audio: "length (loud_audio n) = 2 * n"
  unfolding loud_audio_def by (induction n) simp_all

lemma rms_energy_loud_audio: "0 < n \<Longrightarrow> rms_energy (loud_audio n) = Inr 1000"
proof -
  assume "0 < n"
  have "sint (word_cat (3 :: 8 word) (232 :: 8 word) :: 16 word) = 1000"
    by (simp add: word_cat_eq)
  with rms_energy_replicate [OF \<open>0 < n\<close>, of "0xE8" "0x03"] show ?thesis
    by (simp add: loud_audio_def)
qed

lemma in_LANG_MAP_nonempty: "in_LANG_MAP l \<Longrightarrow> l \<noteq> []"
  by (auto simp: in_LANG_MAP_def LANG_MAP_def)

lemma loud_chunk_nonempty:
  assumes "rms_energy chunk = Inr e" "\<not> e < SILENCE_RMS_THRESHOLD"
  shows "chunk \<noteq> []"
  using assms by (auto simp: rms_energy_def SILENCE_RMS_THRESHOLD_def)

text \<open>
  A voiced chunk that arrives less than \<open>MIN_DETECT_SEC\<close> after the first voiced chunk is
  buffered, and nothing else happens.
\<close>

lemma on_chunk_waits:
  assumes "provisional_lang s = None"
    and "rms_energy chunk = Inr e" and "\<not> e < SILENCE_RMS_THRESHOLD"
    and "t1 - (case first_speech_time s of None \<Rightarrow> t0 | Some t \<Rightarrow> t) < MIN_DETECT_SEC"
  shows "on_chunk chunk t0 t1 r s =
    (None, s\<lparr>current_utt_audio := current_utt_audio s @ chunk,
             first_speech_time := Some (case first_speech_time s of None \<Rightarrow> t0 | Some t \<Rightarrow> t),
             detect_buffer := detect_buffer s @ chunk\<rparr>)"
proof -
  have "\<not> MAX_DETECT_SEC \<le> t1 - (case first_speech_time s of None \<Rightarrow> t0 | Some t \<Rightarrow> t)"
    using assms(4) by (simp add: MIN_DETECT_SEC_def MAX_DETECT_SEC_def)
  then show ?thesis
    using assms by (simp add: on_chunk_def Let_def adopt_language_def)
qed

text \<open>
  Claim C6, as written, makes the amount of voiced audio the trigger of the first
  detection.  The code does not measure audio: it compares the clock
  (\<open>time.perf_counter\<close>) with the arrival of the first voiced chunk.  A frame with 0.8 s
  of voiced audio (12800 samples) that arrives as the first voiced chunk is buffered and
  no detection is requested; and two voiced chunks of one sample each, one second
  apart, trigger the detection on 4 bytes of audio.
\<close>

theorem detection_is_triggered_by_the_clock:
  "audio_seconds (loud_audio 12800) = 8 / 10 \<and>
   rms_energy (loud_audio 12800) = Inr 1000 \<and>
   on_chunk (loud_audio 12800) 0 0 (detected_as ''japanese'') new_session
     = (None, new_session\<lparr>current_utt_audio := loud_audio 12800,
                            first_speech_time := Some 0,
                            detect_buffer := loud_audio 12800\<rparr>) \<and>
   provisional_lang (snd (on_chunk (loud_audio 12800) 0 0
     (detected_as ''japanese'') new_session)) = None \<and>
   effects (snd (on_chunk (loud_audio 12800) 0 0
     (detected_as ''japanese'') new_session)) = [] \<and>
   audio_seconds [0xE8, 0x03, 0xE8, 0x03] < 8 / 10 \<and>
   effects (run [Chunk [0xE8, 0x03] 0 0 (detected_as ''japanese''),
                 Chunk [0xE8, 0x03] 1 1 (detected_as ''japanese'')] new_session)
     = [Whisper_detect_post [0xE8, 0x03, 0xE8, 0x03], Send (ev_lang ''japanese''),
        Recognizer_start ''ja-JP'', Stream_write [0xE8, 0x03, 0xE8, 0x03]]"
proof -
  have e: "rms_energy (loud_audio 12800) = Inr 1000"
    by (simp add: rms_energy_loud_audio)
  have w: "on_chunk (loud_audio 12800) 0 0 (detected_as ''japanese'') new_session
     = (None, new_session\<lparr>current_utt_audio := loud_audio 12800,
                            first_speech_time := Some 0,
                            detect_buffer := loud_audio 12800\<rparr>)"
    by (subst on_chunk_waits [OF _ e])
       (simp_all add: new_session_def SILENCE_RMS_THRESHOLD_def MIN_DETECT_SEC_def)
  have 1: "on_chunk [0xE8, 0x03] 0 0 (detected_as ''japanese'') new_session
     = (None, new_session\<lparr>current_utt_audio := [0xE8, 0x03], first_speech_time := Some 0,
                            detect_buffer := [0xE8, 0x03]\<rparr>)"
    by (simp add: session_defs rms_energy_loud)
  have 2: "on_chunk [0xE8, 0x03] 1 1 (detected_as ''japanese'')
       (new_session\<lparr>current_utt_audio := [0xE8, 0x03], first_speech_time := Some 0,
                      detect_buffer := [0xE8, 0x03]\<rparr>)
     = (None, new_session\<lparr>current_utt_audio := [0xE8, 0x03, 0xE8, 0x03],
          first_speech_time := Some 0, detect_buffer := [],
          provisional_lang := Some ''japanese'', recognizer := Some ''ja-JP'',
          push_stream := True,
          effects := [Whisper_detect_post [0xE8, 0x03, 0xE8, 0x03], Send (ev_lang ''japanese''),
            Recognizer_start ''ja-JP'', Stream_write [0xE8, 0x03, 0xE8, 0x03]]\<rparr>)"
    by (simp add: session_defs rms_energy_loud call_defs reply_defs)
  show ?thesis
    by (simp add: e w 1 2 audio_seconds_def length_loud_audio) (simp add: new_session_def)
qed

text \<open>
  When the request to the detector itself fails (no connection, or a body that is not
  JSON), the exception leaves the main loop: the session ends without a provisional
  language.
\<close>

lemma on_chunk_detection_raises:
  assumes "provisional_lang s = None"
    and "rms_energy chunk = Inr e" and "\<not> e < SILENCE_RMS_THRESHOLD"
    and "MIN_DETECT_SEC \<le> t1 - (case first_speech_time s of None \<Rightarrow> t0 | Some t \<Rightarrow> t)"
    and "whisper_detect (detect_buffer s @ chunk) r = (acts, Inl x)"
  shows "on_chunk chunk t0 t1 r s =
    (Some x, s\<lparr>current_utt_audio := current_utt_audio s @ chunk,
               first_speech_time := Some (case first_speech_time s of None \<Rightarrow> t0 | Some t \<Rightarrow> t),
               detect_buffer := detect_buffer s @ chunk,
               effects := effects s @ acts\<rparr>)"
  using assms by (simp add: on_chunk_def Let_def emit_def)

text \<open>
  Claim C6, amended.  While no provisional language exists, when a voiced chunk arrives
  at least 0.8 s (by the clock) after the first voiced chunk, the language-only detector
  is invoked once, on the accumulated detection buffer (the voiced chunks so far and
  this one).  When that call returns: if it returns a recognized tag the session adopts
  it as the provisional language, otherwise \<open>english\<close>; the session then emits the \<open>lang\<close>
  event, starts the recognizer with the mapped language code, writes the buffered
  detection audio to it, and clears the detection buffer.
\<close>

theorem language_is_acquired_after_min_detect_sec:
  assumes "provisional_lang s = None"
    and "rms_energy chunk = Inr e" and "\<not> e < SILENCE_RMS_THRESHOLD"
    and "MIN_DETECT_SEC \<le> t1 - (case first_speech_time s of None \<Rightarrow> t0 | Some t \<Rightarrow> t)"
    and "snd (whisper_detect (detect_buffer s @ chunk) r) = Inr lang"
  shows "on_chunk chunk t0 t1 r s =
    (let lang' = (if in_LANG_MAP lang then lang else ''english'')
     in (None, s\<lparr>current_utt_audio := current_utt_audio s @ chunk,
             first_speech_time := Some (case first_speech_time s of None \<Rightarrow> t0 | Some t \<Rightarrow> t),
             detect_buffer := [],
             provisional_lang := Some lang',
             recognizer := Some (azure_lang_of lang'),
             push_stream := True,
             effects := effects s @
               [Whisper_detect_post (detect_buffer s @ chunk),
                Send (ev_lang lang'),
                Recognizer_start (azure_lang_of lang'),
                Stream_write (detect_buffer s @ chunk)]\<rparr>))"
proof -
  have ne: "chunk \<noteq> []"
    using assms(2,3) by (rule loud_chunk_nonempty)
  then have wd: "whisper_detect (detect_buffer s @ chunk) r
      = ([Whisper_detect_post (detect_buffer s @ chunk)], Inr lang)"
    using assms(5) by (simp add: whisper_detect_def)
  have l: "(if in_LANG_MAP lang then lang else ''english'') \<noteq> []"
    by (simp add: in_LANG_MAP_nonempty)
  show ?thesis
    using assms(1-4) ne l
    by (simp add: on_chunk_def wd Let_def adopt_language_def start_azure_def emit_def)
qed

lemma waiting_session_eq:
  "waiting_session =
     new_session\<lparr>current_utt_audio := [0xE8, 0x03], first_speech_time := Some 0,
                 detect_buffer := [0xE8, 0x03]\<rparr>"
  by (simp add: waiting_session_def session_defs rms_energy_loud)

theorem language_is_acquired_after_min_detect_sec_witness:
  "provisional_lang waiting_session = None \<and>
   first_speech_time waiting_session = Some 0 \<and>
   detect_buffer waiting_session = [0xE8, 0x03] \<and>
   rms_energy [0xE8, 0x03] = Inr 1000 \<and> \<not> (1000 :: real) < SILENCE_RMS_THRESHOLD \<and>
   MIN_DETECT_SEC \<le> 9 / 10 - 0 \<and>
   snd (whisper_detect [0xE8, 0x03, 0xE8, 0x03] (detected_as ''Japanese'')) = Inr ''japanese'' \<and>
   on_chunk [0xE8, 0x03] (9 / 10) (9 / 10) (detected_as ''Japanese'') waiting_session =
     (None, new_session\<lparr>current_utt_audio := [0xE8, 0x03, 0xE8, 0x03],
        first_speech_time := Some 0, detect_buffer := [],
        provisional_lang := Some ''japanese'', recognizer := Some ''ja-JP'',
        push_stream := True,
        effects := [Whisper_detect_post [0xE8, 0x03, 0xE8, 0x03], Send (ev_lang ''japanese''),
          Recognizer_start ''ja-JP'', Stream_write [0xE8, 0x03, 0xE8, 0x03]]\<rparr>) \<and>
   snd (whisper_detect [0xE8, 0x03, 0xE8, 0x03] (Reply 503 None)) = Inr ''unknown'' \<and>
   provisional_lang (snd (on_chunk [0xE8, 0x03] (9 / 10) (9 / 10) (Reply 503 None)
     waiting_session)) = Some ''english''"
proof -
  have p: "provisional_lang waiting_session = None" "first_speech_time waiting_session = Some 0"
    "detect_buffer waiting_session = [0xE8, 0x03]"
    "current_utt_audio waiting_session = [0xE8, 0x03]"
    "effects waiting_session = []"
    by (simp_all add: waiting_session_eq new_session_def)
  have t: "\<not> (1000 :: real) < SILENCE_RMS_THRESHOLD"
    "MIN_DETECT_SEC \<le> 9 / 10 - (case first_speech_time waiting_session of
        None \<Rightarrow> 9 / 10 | Some t \<Rightarrow> t)"
    by (simp_all add: SILENCE_RMS_THRESHOLD_def MIN_DETECT_SEC_def p)
  have d: "snd (whisper_detect (detect_buffer waiting_session @ [0xE8, 0x03])
             (detected_as ''Japanese'')) = Inr ''japanese''"
    by (simp add: p call_defs reply_defs)
  have d': "snd (whisper_detect (detect_buffer waiting_session @ [0xE8, 0x03]) (Reply 503 None))
             = Inr ''unknown''"
    by (simp add: p call_defs)
  have m: "in_LANG_MAP ''japanese''" "\<not> in_LANG_MAP ''unknown''"
    "azure_lang_of ''japanese'' = ''ja-JP''"
    by (simp_all add: in_LANG_MAP_def azure_lang_of_def LANG_MAP_def)
  show ?thesis
    using language_is_acquired_after_min_detect_sec [OF p(1) rms_energy_loud t d]
      language_is_acquired_after_min_detect_sec [OF p(1) rms_energy_loud t d']
      d d' t
    by (simp add: p m rms_energy_loud MIN_DETECT_SEC_def Let_def)
       (simp add: waiting_session_eq new_session_def)
qed

section \<open>Effects are only ever appended\<close>

lemma grows_refl [simp]: "grows s s"
  by (simp add: grows_def)


lemma grows_emit [simp]: "grows s (emit acts s)"
  by (simp add: grows_def emit_def)

lemma grows_field_update [simp]:
  "grows s (s'\<lparr>current_utt_audio := a\<rparr>) = grows s s'"
  "grows s (s'\<lparr>utterance_history := h\<rparr>) = grows s s'"
  "grows s (s'\<lparr>provisional_lang := p\<rparr>) = grows s s'"
  "grows s (s'\<lparr>lang_locked := l\<rparr>) = grows s s'"
  "grows s (s'\<lparr>last_translation_text := t\<rparr>) = grows s s'"
  "grows s (s'\<lparr>last_translation_embedding := e\<rparr>) = grows s s'"
  "grows s (s'\<lparr>last_translation_time := ti\<rparr>) = grows s s'"
  "grows (s\<lparr>current_utt_audio := a\<rparr>) s' = grows s s'"
  "grows (s\<lparr>utterance_history := h\<rparr>) s' = grows s s'"
  "grows (s\<lparr>provisional_lang := p\<rparr>) s' = grows s s'"
  "grows (s\<lparr>lang_locked := l\<rparr>) s' = grows s s'"
  "grows (s\<lparr>last_translation_text := t\<rparr>) s' = grows s s'"
  "grows (s\<lparr>last_translation_embedding := e\<rparr>) s' = grows s s'"
  "grows (s\<lparr>last_translation_time := ti\<rparr>) s' = grows s s'"
  by (simp_all add: grows_def)






section \<open>The merge of consecutive translations\<close>

lemma update_last_snoc [simp]: "update_last f (xs @ [x]) = xs @ [f x]"
  by (simp add: update_last_def)

lemma record_and_translate_returns:
  assumes "azure_translate txt TARGET_LANG r = (ta, Inr translated)"
  shows "record_and_translate txt r s =
    (Inr translated,
     s\<lparr>utterance_history := utterance_history s @
          [\<lparr>pcm = current_utt_audio s, azure_text = txt, azure_translation = Some translated\<rparr>],
       effects := effects s @ Send (ev_final txt) # ta\<rparr>)"
  using assms by (simp add: record_and_translate_def Let_def emit_def)

lemma merge_translation_effects:
  "effects (merge_translation translated now r s) =
     effects s @ fst (embed_or_none translated r) @
     [Send (if merge_expected (snd (embed_or_none translated r)) now s
            then ev_final_translate (the (last_translation_text s) @ '' '' @ translated)
                   (\<not> lang_locked s) True
            else ev_final_translate translated (\<not> lang_locked s) False)]"
  by (cases "embed_or_none translated r")
     (auto simp: merge_translation_def merge_decision_def merge_expected_def emit_def Let_def
           split: option.splits)


lemma cosine_same: "cosine [1, 0] [1, 0] = 100000000 / 100000001"
  by (simp add: cosine_def)



section \<open>The mismatch handler\<close>

lemma with_merge_context_id [simp]: "with_merge_context (merge_context_of s) s = s"
  by (simp add: with_merge_context_def merge_context_of_def)

lemma replay_returns_result:
  "replay_returns idx entries env \<Longrightarrow>
   replay idx entries env s =
     (None, (with_merge_context (replay_context idx entries env (merge_context_of s)) s)
              \<lparr>effects := effects s @ replay_expected idx entries env\<rparr>)"
proof (induction entries arbitrary: idx s)
  case Nil
  then show ?case by simp
next
  case (Cons entry rest)
  from Cons.prems obtain a1 t1 a2 t2 where
    w1: "whisper_transcribe (pcm entry) (replay_transcribe_reply env idx) = (a1, Inr t1)" and
    w2: "whisper_translate (pcm entry) (replay_translate_reply env idx) = (a2, Inr t2)" and
    r: "replay_returns (Suc idx) rest env"
    by (cases "whisper_transcribe (pcm entry) (replay_transcribe_reply env idx)";
        cases "whisper_translate (pcm entry) (replay_translate_reply env idx)")
       (auto simp: returned_def split: sum.splits)
  obtain a3 emb where e: "embed_or_none t2 (replay_embedding_reply env idx) = (a3, emb)"
    by (cases "embed_or_none t2 (replay_embedding_reply env idx)")
  show ?case
    by (cases emb)
       (simp_all add: w1 w2 e Cons.IH [OF r] corrected_text_def corrected_translation_def
          Let_def emit_def with_merge_context_def merge_context_of_def)
qed


lemma merge_translation_fields [simp]:
  "lang_locked (merge_translation translated now r s) = lang_locked s"
  "provisional_lang (merge_translation translated now r s) = provisional_lang s"
  "utterance_history (merge_translation translated now r s) = utterance_history s"
  "recognizer (merge_translation translated now r s) = recognizer s"
  "push_stream (merge_translation translated now r s) = push_stream s"
  "current_utt_audio (merge_translation translated now r s) = current_utt_audio s"
  "detect_buffer (merge_translation translated now r s) = detect_buffer s"
  "first_speech_time (merge_translation translated now r s) = first_speech_time s"
  by (cases "embed_or_none translated r";
      simp add: merge_translation_def emit_def Let_def split: option.splits)+

lemma merge_expected_update [simp]:
  "merge_expected e n (s\<lparr>utterance_history := h\<rparr>) = merge_expected e n s"
  "merge_expected e n (s\<lparr>effects := x\<rparr>) = merge_expected e n s"
  by (simp_all add: merge_expected_def)

lemma merge_translation_state:
  "merge_translation translated now r s =
     (with_merge_context (merge_context_of (merge_translation translated now r s)) s)
       \<lparr>effects := effects (merge_translation translated now r s)\<rparr>"
  by (cases "embed_or_none translated r")
     (simp add: merge_translation_def emit_def Let_def with_merge_context_def
        merge_context_of_def split: option.splits)

lemma restart_azure_with_language:
  assumes "provisional_lang s = Some l" "l \<noteq> []"
  shows "restart_azure s =
    s\<lparr>recognizer := Some (azure_lang_of l), push_stream := True,
      effects := effects s @ (if recognizer s \<noteq> None then [Recognizer_stop] else []) @
        (if push_stream s then [Stream_close] else []) @
        [Sleep (2 / 10), Recognizer_start (azure_lang_of l)]\<rparr>"
  using assms by (simp add: restart_azure_def start_azure_def emit_def Let_def)

text \<open>
  The mismatch handler when every Whisper call of the replay returns.  The language is
  not locked, the translation of the utterance was obtained, and the detector returns a
  recognized language \<open>detected\<close> that differs from the provisional one.  Then \<open>on_final\<close>
  ends normally, and after the events of the utterance itself and the detection request,
  it has done the following, in this order: the two invalidation events; the replay of
  the whole ledger (the history with the current utterance as its last entry) as
  \<open>replay_expected\<close> describes it; the \<open>lang_locked\<close> event with the detected language;
  the restart of the recognizer (stop, close, 0.2 s, start with the language code of
  the detected language).  In the final state the ledger is empty, the provisional
  language is the detected one, the session is locked, and the merge context is the one
  the replay built from an empty context.
\<close>

lemma mismatch_handler_when_replay_returns:
  assumes "\<not> lang_locked s" and "provisional_lang s = Some p"
    and "azure_translate txt TARGET_LANG (translator_reply env) = (ta, Inr translated)"
    and "whisper_detect (current_utt_audio s) (detect_reply env) = (da, Inr detected)"
    and "in_LANG_MAP detected" and "detected \<noteq> p"
    and "replay_returns 0 (utterance_history s @
           [\<lparr>pcm = current_utt_audio s, azure_text = txt,
             azure_translation = Some translated\<rparr>]) env"
  shows "on_final txt env s =
    (let ledger = utterance_history s @
           [\<lparr>pcm = current_utt_audio s, azure_text = txt,
             azure_translation = Some translated\<rparr>]
     in (None,
         (with_merge_context (replay_context 0 ledger env (None, None, None)) s)
           \<lparr>current_utt_audio := [], utterance_history := [],
            provisional_lang := Some detected, lang_locked := True,
            recognizer := Some (azure_lang_of detected), push_stream := True,
            effects := effects s @ [Send (ev_final txt)] @ ta @
              fst (embed_or_none translated (embedding_reply env)) @
              [Send (if merge_expected (snd (embed_or_none translated (embedding_reply env)))
                          (clock env) s
                     then ev_final_translate (the (last_translation_text s) @ '' '' @ translated)
                            True True
                     else ev_final_translate translated True False)] @
              da @
              [Send ev_invalidate_all_asr, Send ev_invalidate_all_translation] @
              replay_expected 0 ledger env @
              [Send (ev_lang_locked detected)] @
              (if recognizer s \<noteq> None then [Recognizer_stop] else []) @
              (if push_stream s then [Stream_close] else []) @
              [Sleep (2 / 10), Recognizer_start (azure_lang_of detected)]\<rparr>))"
proof -
  define ledger where "ledger = utterance_history s @
           [\<lparr>pcm = current_utt_audio s, azure_text = txt, azure_translation = Some translated\<rparr>]"
  define s1 where "s1 = s\<lparr>utterance_history := ledger,
       effects := effects s @ Send (ev_final txt) # ta\<rparr>"
  define s2 where "s2 = merge_translation translated (clock env) (embedding_reply env) s1"
  define s3 where "s3 = emit da s2"
  have 1: "record_and_translate txt (translator_reply env) s = (Inr translated, s1)"
    by (simp add: record_and_translate_returns [OF assms(3)] s1_def ledger_def)
  have f3: "lang_locked s3 = False" "provisional_lang s3 = Some p" "utterance_history s3 = ledger"
    "recognizer s3 = recognizer s" "push_stream s3 = push_stream s"
    using assms(1,2) by (simp_all add: s3_def s2_def s1_def emit_def)
  have ad: "adopt_first_detection detected s3 = s3"
    by (simp add: adopt_first_detection_def f3)
  define s4 where "s4 = emit [Send ev_invalidate_all_asr, Send ev_invalidate_all_translation]
     (s3\<lparr>last_translation_text := None, last_translation_embedding := None,
         last_translation_time := None\<rparr>)"
  have h4: "utterance_history s4 = ledger"
    by (simp add: s4_def emit_def f3)
  have rp: "replay 0 ledger env s4 =
     (None, (with_merge_context (replay_context 0 ledger env (merge_context_of s4)) s4)
              \<lparr>effects := effects s4 @ replay_expected 0 ledger env\<rparr>)"
    using assms(7) unfolding ledger_def [symmetric] by (rule replay_returns_result)
  have c4: "merge_context_of s4 = (None, None, None)"
    by (simp add: s4_def merge_context_of_def emit_def)
  have ne: "detected \<noteq> []"
    using assms(5) by (rule in_LANG_MAP_nonempty)
  have mh: "mismatch_handler detected env s3 =
     (None, restart_azure (emit [Send (ev_lang_locked detected)]
        (((with_merge_context (replay_context 0 ledger env (None, None, None)) s4)
              \<lparr>effects := effects s4 @ replay_expected 0 ledger env\<rparr>)
           \<lparr>utterance_history := [], provisional_lang := Some detected, lang_locked := True\<rparr>)))"
    by (simp add: mismatch_handler_def Let_def s4_def [symmetric] h4 rp c4)
  have dl: "decide_language detected env s3 =
     (None, (restart_azure (emit [Send (ev_lang_locked detected)]
        (((with_merge_context (replay_context 0 ledger env (None, None, None)) s4)
              \<lparr>effects := effects s4 @ replay_expected 0 ledger env\<rparr>)
           \<lparr>utterance_history := [], provisional_lang := Some detected, lang_locked := True\<rparr>)))
        \<lparr>current_utt_audio := []\<rparr>)"
    using assms(5,6) by (simp add: decide_language_def f3 mh)
  have of: "on_final txt env s = decide_language detected env s3"
    by (simp add: on_final_def 1 verify_language_def s1_def assms(4) s2_def [symmetric, unfolded s1_def]
        s3_def [symmetric] ad)
  define T where "T = last_translation_text s2"
  define E where "E = last_translation_embedding s2"
  define TI where "TI = last_translation_time s2"
  define EF where "EF = effects s2"
  have s2s: "s2 = s\<lparr>utterance_history := ledger, last_translation_text := T,
      last_translation_embedding := E, last_translation_time := TI, effects := EF\<rparr>"
    unfolding T_def E_def TI_def EF_def
    by (subst merge_translation_state [of translated "clock env" "embedding_reply env" s1,
          folded s2_def])
       (simp add: with_merge_context_def merge_context_of_def s1_def)
  have e2: "EF = effects s @ [Send (ev_final txt)] @ ta @
              fst (embed_or_none translated (embedding_reply env)) @
              [Send (if merge_expected (snd (embed_or_none translated (embedding_reply env)))
                          (clock env) s
                     then ev_final_translate (the (last_translation_text s) @ '' '' @ translated)
                            True True
                     else ev_final_translate translated True False)]"
    using assms(1) by (simp add: EF_def s2_def s1_def merge_translation_effects)
  have ra: "restart_azure (emit [Send (ev_lang_locked detected)]
        (((with_merge_context (replay_context 0 ledger env (None, None, None)) s4)
              \<lparr>effects := effects s4 @ replay_expected 0 ledger env\<rparr>)
           \<lparr>utterance_history := [], provisional_lang := Some detected, lang_locked := True\<rparr>))
     = (with_merge_context (replay_context 0 ledger env (None, None, None)) s)
           \<lparr>utterance_history := [],
            provisional_lang := Some detected, lang_locked := True,
            recognizer := Some (azure_lang_of detected), push_stream := True,
            effects := EF @ da @
              [Send ev_invalidate_all_asr, Send ev_invalidate_all_translation] @
              replay_expected 0 ledger env @
              [Send (ev_lang_locked detected)] @
              (if recognizer s \<noteq> None then [Recognizer_stop] else []) @
              (if push_stream s then [Stream_close] else []) @
              [Sleep (2 / 10), Recognizer_start (azure_lang_of detected)]\<rparr>"
    by (subst restart_azure_with_language [where l = detected])
       (simp_all add: ne emit_def s4_def s3_def s2s with_merge_context_def)
  show ?thesis
    unfolding of dl ra Let_def ledger_def [symmetric]
    by (simp add: with_merge_context_def e2)
qed

lemma embed_or_none_embedded_as:
  "t \<noteq> [] \<Longrightarrow> embed_or_none t (embedded_as v) = ([Embedding_post t], Some v)"
  by (induction v) (simp_all add: call_defs reply_defs split: option.splits)

lemma japanese_session_eq:
  "japanese_session =
     \<lparr>detect_buffer = [], current_utt_audio = [0x10, 0x27],
      provisional_lang = Some ''japanese'', lang_locked = False,
      recognizer = Some ''ja-JP'', push_stream = True, first_speech_time = Some 1,
      last_translation_text = Some ''hello'', last_translation_time = Some 10,
      last_translation_embedding = Some [1, 0],
      utterance_history = [\<lparr>pcm = [0xE8, 0x03], azure_text = ''a'',
                              azure_translation = Some ''hello''\<rparr>],
      effects = japanese_effects\<rparr>"
proof -
  have 1: "on_chunk [0xE8, 0x03] 1 2 (detected_as ''Japanese'') new_session =
     (None, new_session\<lparr>current_utt_audio := [0xE8, 0x03],
        first_speech_time := Some 1, detect_buffer := [],
        provisional_lang := Some ''japanese'', recognizer := Some ''ja-JP'',
        push_stream := True,
        effects := [Whisper_detect_post [0xE8, 0x03], Send (ev_lang ''japanese''),
          Recognizer_start ''ja-JP'', Stream_write [0xE8, 0x03]]\<rparr>)"
    by (simp add: session_defs rms_energy_loud call_defs reply_defs)
  have 2: "on_final ''a'' (example_env ''unknown'') (new_session\<lparr>current_utt_audio := [0xE8, 0x03],
        first_speech_time := Some 1, detect_buffer := [],
        provisional_lang := Some ''japanese'', recognizer := Some ''ja-JP'',
        push_stream := True,
        effects := [Whisper_detect_post [0xE8, 0x03], Send (ev_lang ''japanese''),
          Recognizer_start ''ja-JP'', Stream_write [0xE8, 0x03]]\<rparr>) =
     (None, \<lparr>detect_buffer = [], current_utt_audio = [],
      provisional_lang = Some ''japanese'', lang_locked = False,
      recognizer = Some ''ja-JP'', push_stream = True, first_speech_time = Some 1,
      last_translation_text = Some ''hello'', last_translation_time = Some 10,
      last_translation_embedding = Some [1, 0],
      utterance_history = [\<lparr>pcm = [0xE8, 0x03], azure_text = ''a'',
                              azure_translation = Some ''hello''\<rparr>],
      effects = [Whisper_detect_post [0xE8, 0x03], Send (ev_lang ''japanese''),
      Recognizer_start ''ja-JP'', Stream_write [0xE8, 0x03],
      Send (ev_final ''a''), Translator_post ''a'' ''en'', Embedding_post ''hello'',
      Send (ev_final_translate ''hello'' True False), Whisper_detect_post [0xE8, 0x03]]\<rparr>)"
    by (simp add: session_defs call_defs reply_defs)
  show ?thesis
    unfolding japanese_session_def japanese_effects_def
    by (simp add: 1 2) (simp add: on_chunk_def emit_def)
qed

text \<open>
  Claim C1 (the mismatch handler invalidates, replays every ledger entry while
  continuing past entries that fail, clears the ledger, locks and restarts).  The
  handler does all of this when the Whisper calls of the replay return
  (\<open>mismatch_handler_when_replay_returns\<close>); a transcription that comes back with a
  status other than 200 counts as empty and is skipped (\<open>mismatch_example\<close>).  But the two
  Whisper calls of the replay loop are not inside a \<open>try\<close> (the call of \<open>embed\<close> in the
  same loop is): when the request itself fails, the exception leaves the loop and
  \<open>on_final\<close>.  In the example the session has the provisional language Japanese and
  one utterance in its ledger, the second utterance is detected as English, and the
  transcription request for the first ledger entry fails to connect while every other
  request would be answered.  The handler stops after the two invalidation events and
  that request: the second entry is never replayed, the ledger keeps both entries, the
  provisional language stays Japanese, the session is not locked, no \<open>lang_locked\<close> event
  is sent and the recognizer is not restarted.
\<close>

theorem mismatch_handler_stops_at_failed_request:
  "\<not> lang_locked japanese_session \<and>
   provisional_lang japanese_session = Some ''japanese'' \<and>
   whisper_detect (current_utt_audio japanese_session) (detect_reply first_request_fails)
     = ([Whisper_detect_post [0x10, 0x27]], Inr ''english'') \<and>
   in_LANG_MAP ''english'' \<and>
   on_final ''konnichiwa'' first_request_fails japanese_session
     = (Some ClientError, aborted_session) \<and>
   effects aborted_session = japanese_effects @
     [Send (ev_final ''konnichiwa''), Translator_post ''konnichiwa'' ''en'',
      Embedding_post ''hello'', Send (ev_final_translate ''hello'' True False),
      Whisper_detect_post [0x10, 0x27],
      Send ev_invalidate_all_asr, Send ev_invalidate_all_translation,
      Whisper_transcribe_post [0xE8, 0x03]] \<and>
   map pcm (utterance_history aborted_session) = [[0xE8, 0x03], [0x10, 0x27]] \<and>
   \<not> lang_locked aborted_session \<and>
   provisional_lang aborted_session = Some ''japanese'' \<and>
   recognizer aborted_session = Some ''ja-JP''"
proof -
  have 1: "on_final ''konnichiwa'' first_request_fails japanese_session
     = (Some ClientError, aborted_session)"
    by (simp add: aborted_session_def first_request_fails_def japanese_session_eq session_defs
        call_defs reply_defs)
  have 2: "whisper_detect (current_utt_audio japanese_session) (detect_reply first_request_fails)
     = ([Whisper_detect_post [0x10, 0x27]], Inr ''english'')"
    by (simp add: first_request_fails_def japanese_session_eq call_defs reply_defs)
  have 3: "in_LANG_MAP ''english''"
    by (simp add: in_LANG_MAP_def LANG_MAP_def)
  show ?thesis
    by (simp add: 1 2 3) (simp add: aborted_session_def japanese_session_eq)
qed

section \<open>After the lock\<close>

lemma on_final_decides:
  assumes "azure_translate txt TARGET_LANG (translator_reply env) = (ta, Inr translated)"
    and "whisper_detect (current_utt_audio s) (detect_reply env) = (da, Inr detected)"
  shows "on_final txt env s =
    decide_language detected env
      (adopt_first_detection detected
         (emit da (merge_translation translated (clock env) (embedding_reply env)
            (s\<lparr>utterance_history := utterance_history s @
                 [\<lparr>pcm = current_utt_audio s, azure_text = txt,
                   azure_translation = Some translated\<rparr>],
               effects := effects s @ Send (ev_final txt) # ta\<rparr>))))"
  by (simp add: on_final_def record_and_translate_returns [OF assms(1)] verify_language_def
      assms(2))

lemma whisper_detect_requests:
  "fst (whisper_detect b r) = (if b = [] then [] else [Whisper_detect_post b])"
  by (simp add: whisper_detect_def)

lemma locked_session_eq:
  "locked_session =
     \<lparr>detect_buffer = [], current_utt_audio = [0xE8, 0x03],
      provisional_lang = Some ''japanese'', lang_locked = True,
      recognizer = Some ''ja-JP'', push_stream = True, first_speech_time = Some 1,
      last_translation_text = Some ''hello'', last_translation_time = Some 20,
      last_translation_embedding = Some [1, 0],
      utterance_history =
        [\<lparr>pcm = [0xE8, 0x03], azure_text = ''a'', azure_translation = Some ''hello''\<rparr>,
         \<lparr>pcm = [0x10, 0x27], azure_text = ''konnichiwa'',
          azure_translation = Some ''hello''\<rparr>],
      effects = locked_effects\<rparr>"
proof -
  have 1: "on_final ''konnichiwa'' ((example_env ''japanese'')\<lparr>clock := 20\<rparr>) japanese_session =
     (None, \<lparr>detect_buffer = [], current_utt_audio = [],
      provisional_lang = Some ''japanese'', lang_locked = True,
      recognizer = Some ''ja-JP'', push_stream = True, first_speech_time = Some 1,
      last_translation_text = Some ''hello'', last_translation_time = Some 20,
      last_translation_embedding = Some [1, 0],
      utterance_history =
        [\<lparr>pcm = [0xE8, 0x03], azure_text = ''a'', azure_translation = Some ''hello''\<rparr>,
         \<lparr>pcm = [0x10, 0x27], azure_text = ''konnichiwa'',
          azure_translation = Some ''hello''\<rparr>],
      effects = japanese_effects @
     [Send (ev_final ''konnichiwa''), Translator_post ''konnichiwa'' ''en'',
      Embedding_post ''hello'', Send (ev_final_translate ''hello'' True False),
      Whisper_detect_post [0x10, 0x27], Send (ev_lang_locked ''japanese'')]\<rparr>)"
    by (simp add: japanese_session_eq session_defs call_defs reply_defs cosine_same)
  show ?thesis
    unfolding locked_session_def locked_effects_def
    by (simp add: 1) (simp add: on_chunk_def emit_def)
qed

text \<open>
  Claim C4, as written, says that after the lock the per-utterance language detector is
  not called any more.  It is: \<open>on_final\<close> calls \<open>whisper_detect\<close> (line 377) before it
  looks at \<open>lang_locked\<close> (line 385).  In the locked example session the next utterance
  posts its audio to the detector.
\<close>

theorem detector_is_called_after_lock:
  "lang_locked locked_session \<and>
   effects (run [Final_result ''arigato'' ((example_env ''english'')\<lparr>clock := 30\<rparr>)]
              locked_session)
     = effects locked_session @
       [Send (ev_final ''arigato''), Translator_post ''arigato'' ''en'',
        Embedding_post ''hello'', Send (ev_final_translate ''hello'' False False),
        Whisper_detect_post [0xE8, 0x03]]"
  by (simp add: locked_session_eq session_defs call_defs reply_defs cosine_same)

text \<open>
  Claim C4, amended.  After the lock the detector is still called once for every
  utterance whose audio is not empty, but its answer \<open>detected\<close> is not acted on: whatever
  it is, the utterance produces its \<open>final\<close> event, its translation and embedding
  requests, its \<open>final_translate\<close> event and the detection request, and nothing else;
  the lock, the provisional language and the recognizer stay as they are.  (Every
  session that is locked has a provisional language.)
\<close>

theorem locked_session_ignores_detector_answer:
  assumes "lang_locked s" and "provisional_lang s \<noteq> None"
    and "azure_translate txt TARGET_LANG (translator_reply env) = (ta, Inr translated)"
    and "whisper_detect (current_utt_audio s) (detect_reply env) = (da, Inr detected)"
  shows "fst (on_final txt env s) = None \<and>
         lang_locked (snd (on_final txt env s)) \<and>
         provisional_lang (snd (on_final txt env s)) = provisional_lang s \<and>
         recognizer (snd (on_final txt env s)) = recognizer s \<and>
         effects (snd (on_final txt env s)) =
           effects s @ [Send (ev_final txt)] @ ta @
           fst (embed_or_none translated (embedding_reply env)) @
           [Send (if merge_expected (snd (embed_or_none translated (embedding_reply env)))
                       (clock env) s
                  then ev_final_translate (the (last_translation_text s) @ '' '' @ translated)
                         False True
                  else ev_final_translate translated False False)] @
           (if current_utt_audio s = [] then [] else [Whisper_detect_post (current_utt_audio s)])"
proof -
  have da: "da = (if current_utt_audio s = [] then [] else [Whisper_detect_post (current_utt_audio s)])"
    using assms(4) whisper_detect_requests [of "current_utt_audio s" "detect_reply env"] by simp
  show ?thesis
    using assms(1,2)
    by (simp add: on_final_decides [OF assms(3,4)] decide_language_def
        adopt_first_detection_def emit_def merge_translation_effects da)
qed


theorem locked_session_ignores_detector_answer_witness:
  "lang_locked locked_session \<and> provisional_lang locked_session \<noteq> None \<and>
   azure_translate ''arigato'' TARGET_LANG
       (translator_reply ((example_env ''english'')\<lparr>clock := 30\<rparr>))
     = ([Translator_post ''arigato'' ''en''], Inr ''hello'') \<and>
   whisper_detect (current_utt_audio locked_session)
       (detect_reply ((example_env ''english'')\<lparr>clock := 30\<rparr>))
     = ([Whisper_detect_post [0xE8, 0x03]], Inr ''english'') \<and>
   in_LANG_MAP ''english'' \<and>
   provisional_lang (snd (on_final ''arigato'' ((example_env ''english'')\<lparr>clock := 30\<rparr>)
      locked_session)) = Some ''japanese'' \<and>
   effects (snd (on_final ''arigato'' ((example_env ''english'')\<lparr>clock := 30\<rparr>)
      locked_session))
     = locked_effects @
       [Send (ev_final ''arigato''), Translator_post ''arigato'' ''en'',
        Embedding_post ''hello'', Send (ev_final_translate ''hello'' False False),
        Whisper_detect_post [0xE8, 0x03]]"
proof -
  let ?env = "(example_env ''english'')\<lparr>clock := 30\<rparr>"
  have f: "lang_locked locked_session" "provisional_lang locked_session \<noteq> None"
    "provisional_lang locked_session = Some ''japanese''"
    "current_utt_audio locked_session = [0xE8, 0x03]" "effects locked_session = locked_effects"
    by (simp_all add: locked_session_eq)
  have t: "azure_translate ''arigato'' TARGET_LANG (translator_reply ?env)
     = ([Translator_post ''arigato'' ''en''], Inr ''hello'')"
    by (simp add: call_defs reply_defs)
  have d: "whisper_detect (current_utt_audio locked_session) (detect_reply ?env)
     = ([Whisper_detect_post [0xE8, 0x03]], Inr ''english'')"
    by (simp add: f call_defs reply_defs)
  have m: "\<not> merge_expected (Some [1, 0]) 30 locked_session"
    by (simp add: merge_expected_def locked_session_eq)
  have e: "embedding_reply ?env = embedded_as [1, 0]" "clock ?env = 30"
    by (simp_all add: example_env_def)
  have l: "in_LANG_MAP ''english''"
    by (simp add: in_LANG_MAP_def LANG_MAP_def)
  show ?thesis
    using locked_session_ignores_detector_answer [OF f(1,2) t d] t d l
    by (simp add: f e m embed_or_none_embedded_as)
qed


section \<open>The utterance history\<close>

lemma replay_keeps_language_state:
  "utterance_history (snd (replay idx entries env s)) = utterance_history s \<and>
   lang_locked (snd (replay idx entries env s)) = lang_locked s \<and>
   provisional_lang (snd (replay idx entries env s)) = provisional_lang s"
proof (induction entries arbitrary: idx s)
  case Nil
  then show ?case by simp
next
  case (Cons entry rest)
  show ?case
    by (cases "whisper_transcribe (pcm entry) (replay_transcribe_reply env idx)";
        cases "whisper_translate (pcm entry) (replay_translate_reply env idx)";
        cases "embed_or_none (projr (snd (whisper_translate (pcm entry)
                 (replay_translate_reply env idx)))) (replay_embedding_reply env idx)")
       (auto simp: Cons.IH emit_def Let_def split: sum.splits option.splits)
qed

lemma restart_azure_keeps_language_state [simp]:
  "utterance_history (restart_azure s) = utterance_history s"
  "lang_locked (restart_azure s) = lang_locked s"
  "provisional_lang (restart_azure s) = provisional_lang s"
  by (simp_all add: restart_azure_def start_azure_def emit_def Let_def split: option.splits)

lemma mismatch_handler_completed:
  assumes "fst (mismatch_handler detected env s) = None"
  shows "utterance_history (snd (mismatch_handler detected env s)) = []"
    and "lang_locked (snd (mismatch_handler detected env s))"
    and "provisional_lang (snd (mismatch_handler detected env s)) = Some detected"
  using assms
  by (auto simp: mismatch_handler_def Let_def emit_def split: prod.splits option.splits)

lemma mismatch_handler_aborted:
  assumes "fst (mismatch_handler detected env s) \<noteq> None"
  shows "utterance_history (snd (mismatch_handler detected env s)) = utterance_history s"
    and "lang_locked (snd (mismatch_handler detected env s)) = lang_locked s"
    and "provisional_lang (snd (mismatch_handler detected env s)) = provisional_lang s"
proof -
  let ?s2 = "emit [Send ev_invalidate_all_asr, Send ev_invalidate_all_translation]
     (s\<lparr>last_translation_text := None, last_translation_embedding := None,
         last_translation_time := None\<rparr>)"
  obtain r s3 where r: "replay 0 (utterance_history ?s2) env ?s2 = (r, s3)"
    by (cases "replay 0 (utterance_history ?s2) env ?s2")
  from replay_keeps_language_state [of 0 "utterance_history ?s2" env ?s2] r
  have k: "utterance_history s3 = utterance_history s" "lang_locked s3 = lang_locked s"
    "provisional_lang s3 = provisional_lang s"
    by (simp_all add: emit_def)
  from assms r have m: "mismatch_handler detected env s = (r, s3)"
    by (cases r) (simp_all add: mismatch_handler_def Let_def)
  show "utterance_history (snd (mismatch_handler detected env s)) = utterance_history s"
    and "lang_locked (snd (mismatch_handler detected env s)) = lang_locked s"
    and "provisional_lang (snd (mismatch_handler detected env s)) = provisional_lang s"
    by (simp_all add: m k)
qed

lemma mismatch_example:
  "on_final ''konnichiwa'' mismatch_env japanese_session =
     (None, japanese_session\<lparr>current_utt_audio := [], provisional_lang := Some ''english'',
        lang_locked := True, recognizer := Some ''en-US'',
        last_translation_text := Some ''hello'', last_translation_time := Some 11,
        last_translation_embedding := Some [1, 0], utterance_history := [],
        effects := japanese_effects @
         [Send (ev_final ''konnichiwa''), Translator_post ''konnichiwa'' ''en'',
          Embedding_post ''hello'', Send (ev_final_translate ''hello'' True False),
          Whisper_detect_post [0x10, 0x27],
          Send ev_invalidate_all_asr, Send ev_invalidate_all_translation,
          Whisper_transcribe_post [0xE8, 0x03], Whisper_translate_post [0xE8, 0x03],
          Send (ev_final_translate_replayed ''hello''), Embedding_post ''hello'',
          Whisper_transcribe_post [0x10, 0x27], Whisper_translate_post [0x10, 0x27],
          Send (ev_final_corrected ''konnichiwa''),
          Send (ev_final_translate_replayed ''hello''), Embedding_post ''hello'',
          Send (ev_lang_locked ''english''),
          Recognizer_stop, Stream_close, Sleep (2 / 10), Recognizer_start ''en-US'']\<rparr>)"
  by (simp add: japanese_session_eq mismatch_env_def session_defs call_defs reply_defs)

text \<open>
  Claim C3, as written, says that the history is empty whenever the language is locked.
  It is not: \<open>on_final\<close> appends every utterance to the history (line 318) before it
  looks at the lock, and only the mismatch handler clears the history (line 444).  After
  a verified match (case B) the locked session still holds both utterances, and the
  next utterance is appended as a third.
\<close>

theorem history_is_kept_after_lock:
  "lang_locked locked_session \<and>
   utterance_history locked_session =
     [\<lparr>pcm = [0xE8, 0x03], azure_text = ''a'', azure_translation = Some ''hello''\<rparr>,
      \<lparr>pcm = [0x10, 0x27], azure_text = ''konnichiwa'', azure_translation = Some ''hello''\<rparr>] \<and>
   utterance_history
     (run [Final_result ''arigato'' ((example_env ''english'')\<lparr>clock := 30\<rparr>)] locked_session) =
     [\<lparr>pcm = [0xE8, 0x03], azure_text = ''a'', azure_translation = Some ''hello''\<rparr>,
      \<lparr>pcm = [0x10, 0x27], azure_text = ''konnichiwa'', azure_translation = Some ''hello''\<rparr>,
      \<lparr>pcm = [0xE8, 0x03], azure_text = ''arigato'', azure_translation = Some ''hello''\<rparr>]"
  by (simp add: locked_session_eq session_defs call_defs reply_defs cosine_same)

text \<open>
  Claim C3, amended.  In a session that is not locked and has a provisional language,
  when the translation and the detection of an utterance return: if the detected
  language is a recognized one that differs from the provisional one and the mismatch
  handler runs to its end, the history is empty afterwards and the session is locked
  (the replay clears the history); and whenever the session is still unlocked after the
  utterance, the history is the previous history followed by this utterance.
\<close>

theorem history_cleared_by_completed_replay:
  assumes "\<not> lang_locked s" and "provisional_lang s = Some p"
    and "azure_translate txt TARGET_LANG (translator_reply env) = (ta, Inr translated)"
    and "whisper_detect (current_utt_audio s) (detect_reply env) = (da, Inr detected)"
  shows "(in_LANG_MAP detected \<and> detected \<noteq> p \<and> fst (on_final txt env s) = None \<longrightarrow>
            utterance_history (snd (on_final txt env s)) = [] \<and>
            lang_locked (snd (on_final txt env s))) \<and>
         (\<not> lang_locked (snd (on_final txt env s)) \<longrightarrow>
            utterance_history (snd (on_final txt env s)) =
              utterance_history s @
                [\<lparr>pcm = current_utt_audio s, azure_text = txt,
                  azure_translation = Some translated\<rparr>])"
proof -
  define s3 where "s3 = emit da (merge_translation translated (clock env) (embedding_reply env)
            (s\<lparr>utterance_history := utterance_history s @
                 [\<lparr>pcm = current_utt_audio s, azure_text = txt,
                   azure_translation = Some translated\<rparr>],
               effects := effects s @ Send (ev_final txt) # ta\<rparr>))"
  have f: "\<not> lang_locked s3" "provisional_lang s3 = Some p"
    "utterance_history s3 = utterance_history s @
                 [\<lparr>pcm = current_utt_audio s, azure_text = txt,
                   azure_translation = Some translated\<rparr>]"
    using assms(1,2) by (simp_all add: s3_def emit_def)
  have o: "on_final txt env s = decide_language detected env s3"
    by (simp add: on_final_decides [OF assms(3,4)] s3_def adopt_first_detection_def assms(2)
        emit_def)
  show ?thesis
  proof (cases "in_LANG_MAP detected \<and> detected \<noteq> p")
    case True
    then have d: "decide_language detected env s3 =
       (case mismatch_handler detected env s3 of
              (Some e, s') \<Rightarrow> (Some e, s')
            | (None, s') \<Rightarrow> (None, s'\<lparr>current_utt_audio := []\<rparr>))"
      by (auto simp: decide_language_def f)
    show ?thesis
    proof (cases "fst (mismatch_handler detected env s3) = None")
      case None: True
      with mismatch_handler_completed [OF None] show ?thesis
        by (cases "mismatch_handler detected env s3") (simp add: o d)
    next
      case False
      with mismatch_handler_aborted [OF False] show ?thesis
        by (cases "mismatch_handler detected env s3") (auto simp: o d f)
    qed
  next
    case False
    then show ?thesis
      by (auto simp: o decide_language_def f emit_def)
  qed
qed


theorem history_cleared_by_completed_replay_witness:
  "\<not> lang_locked japanese_session \<and> provisional_lang japanese_session = Some ''japanese'' \<and>
   azure_translate ''konnichiwa'' TARGET_LANG (translator_reply mismatch_env)
     = ([Translator_post ''konnichiwa'' ''en''], Inr ''hello'') \<and>
   whisper_detect (current_utt_audio japanese_session) (detect_reply mismatch_env)
     = ([Whisper_detect_post [0x10, 0x27]], Inr ''english'') \<and>
   in_LANG_MAP ''english'' \<and> ''english'' \<noteq> ''japanese'' \<and>
   fst (on_final ''konnichiwa'' mismatch_env japanese_session) = None \<and>
   utterance_history (snd (on_final ''konnichiwa'' mismatch_env japanese_session)) = [] \<and>
   lang_locked (snd (on_final ''konnichiwa'' mismatch_env japanese_session)) \<and>
   whisper_detect (current_utt_audio japanese_session) (detect_reply (example_env ''unknown''))
     = ([Whisper_detect_post [0x10, 0x27]], Inr ''unknown'') \<and>
   \<not> lang_locked (snd (on_final ''konnichiwa'' (example_env ''unknown'') japanese_session)) \<and>
   utterance_history (snd (on_final ''konnichiwa'' (example_env ''unknown'') japanese_session)) =
     [\<lparr>pcm = [0xE8, 0x03], azure_text = ''a'', azure_translation = Some ''hello''\<rparr>,
      \<lparr>pcm = [0x10, 0x27], azure_text = ''konnichiwa'', azure_translation = Some ''hello''\<rparr>]"
proof -
  let ?s = japanese_session
  have f: "\<not> lang_locked ?s" "provisional_lang ?s = Some ''japanese''"
    "current_utt_audio ?s = [0x10, 0x27]"
    "utterance_history ?s = [\<lparr>pcm = [0xE8, 0x03], azure_text = ''a'',
                              azure_translation = Some ''hello''\<rparr>]"
    by (simp_all add: japanese_session_eq)
  have t: "azure_translate ''konnichiwa'' TARGET_LANG (translator_reply mismatch_env)
     = ([Translator_post ''konnichiwa'' ''en''], Inr ''hello'')"
    "azure_translate ''konnichiwa'' TARGET_LANG (translator_reply (example_env ''unknown''))
     = ([Translator_post ''konnichiwa'' ''en''], Inr ''hello'')"
    by (simp_all add: mismatch_env_def call_defs reply_defs)
  have d: "whisper_detect (current_utt_audio ?s) (detect_reply mismatch_env)
     = ([Whisper_detect_post [0x10, 0x27]], Inr ''english'')"
    "whisper_detect (current_utt_audio ?s) (detect_reply (example_env ''unknown''))
     = ([Whisper_detect_post [0x10, 0x27]], Inr ''unknown'')"
    by (simp_all add: mismatch_env_def f call_defs reply_defs)
  have l: "in_LANG_MAP ''english''" "''english'' \<noteq> ''japanese''" "\<not> in_LANG_MAP ''unknown''"
    by (simp_all add: in_LANG_MAP_def LANG_MAP_def)
  have c: "\<not> lang_locked (snd (on_final ''konnichiwa'' (example_env ''unknown'') ?s))"
    by (simp add: on_final_decides [OF t(2) d(2)] decide_language_def
        adopt_first_detection_def emit_def f l)
  show ?thesis
    using history_cleared_by_completed_replay [OF f(1,2) t(1) d(1)]
      history_cleared_by_completed_replay [OF f(1,2) t(2) d(2)] t(1) d l(1,2) c
    by (simp add: f mismatch_example)
qed

section \<open>The lock is permanent\<close>

lemma rollback_free_simps [simp]:
  "rollback_free []"
  "rollback_free (a # acts) = (\<not> is_rollback_action a \<and> rollback_free acts)"
  "rollback_free (acts @ acts') = (rollback_free acts \<and> rollback_free acts')"
  by (auto simp: rollback_free_def)

lemma events_not_rollback [simp]:
  "\<not> is_rollback_action (Send (ev_final t))"
  "\<not> is_rollback_action (Send (ev_final_translate t p r))"
  "\<not> is_rollback_action (Send (ev_lang l))"
  "\<not> is_rollback_action (Send (ev_lang_locked l))"
  "\<not> is_rollback_action (Send (ev_partial t))"
  "\<not> is_rollback_action (Send (ev_mid_translate t))"
  by (simp_all add: is_rollback_action_def is_replayed_def ev_final_def ev_final_translate_def
      ev_lang_def ev_lang_locked_def ev_partial_def ev_mid_translate_def
      ev_invalidate_all_asr_def ev_invalidate_all_translation_def)

lemma requests_not_rollback [simp]:
  "rollback_free (fst (azure_translate t l r))"
  "rollback_free (fst (whisper_detect b r))"
  "rollback_free (fst (embed_or_none t r))"
  by (simp_all add: azure_translate_def whisper_detect_def embed_or_none_def embed_def
      is_rollback_action_def split: prod.splits sum.splits)

lemma same_rollbackI:
  "lang_locked s' = lang_locked s \<Longrightarrow> effects s' = effects s @ acts \<Longrightarrow> rollback_free acts \<Longrightarrow>
   same_rollback s s'"
  by (simp add: same_rollback_def rollback_free_def)

lemma same_rollback_trans: "same_rollback s s' \<Longrightarrow> same_rollback s' s'' \<Longrightarrow> same_rollback s s''"
  by (simp add: same_rollback_def)

lemma on_final_locked:
  assumes "lang_locked s"
  shows "same_rollback s (snd (on_final txt env s))"
proof (cases "azure_translate txt TARGET_LANG (translator_reply env)")
  case (Pair ta res)
  have ta: "rollback_free ta"
    using requests_not_rollback(1) [of "txt" TARGET_LANG "translator_reply env"] Pair by simp
  show ?thesis
  proof (cases res)
    case (Inl e)
    show ?thesis
      by (rule same_rollbackI [where acts = "Send (ev_final txt) # ta"])
         (simp_all add: on_final_def record_and_translate_def Pair Inl emit_def ta)
  next
    case (Inr translated)
    obtain da dres where d: "whisper_detect (current_utt_audio s) (detect_reply env) = (da, dres)"
      by (cases "whisper_detect (current_utt_audio s) (detect_reply env)")
    have da: "rollback_free da"
      using requests_not_rollback(2) [of "current_utt_audio s" "detect_reply env"] d by simp
    let ?acts = "[Send (ev_final txt)] @ ta @
           fst (embed_or_none translated (embedding_reply env)) @
           [Send (if merge_expected (snd (embed_or_none translated (embedding_reply env)))
                       (clock env) s
                  then ev_final_translate (the (last_translation_text s) @ '' '' @ translated)
                         False True
                  else ev_final_translate translated False False)] @ da"
    show ?thesis
    proof (rule same_rollbackI [where acts = ?acts])
      show "lang_locked (snd (on_final txt env s)) = lang_locked s"
        using assms
        by (cases dres)
           (simp_all add: on_final_def record_and_translate_returns [OF Pair [unfolded Inr]]
              verify_language_def d decide_language_def adopt_first_detection_def emit_def)
      show "effects (snd (on_final txt env s)) = effects s @ ?acts"
        using assms
        by (cases dres)
           (simp_all add: on_final_def record_and_translate_returns [OF Pair [unfolded Inr]]
              verify_language_def d decide_language_def adopt_first_detection_def emit_def
              merge_translation_effects)
      show "rollback_free ?acts"
        by (simp add: ta da)
    qed
  qed
qed


lemma same_rollback_refl [simp]: "same_rollback s s"
  by (simp add: same_rollback_def)

lemma same_rollback_update [simp]:
  "same_rollback s (s'\<lparr>current_utt_audio := a\<rparr>) = same_rollback s s'"
  "same_rollback s (s'\<lparr>detect_buffer := a\<rparr>) = same_rollback s s'"
  "same_rollback s (s'\<lparr>first_speech_time := ti\<rparr>) = same_rollback s s'"
  "same_rollback s (s'\<lparr>provisional_lang := p\<rparr>) = same_rollback s s'"
  "same_rollback s (s'\<lparr>recognizer := rc\<rparr>) = same_rollback s s'"
  "same_rollback s (s'\<lparr>push_stream := ps\<rparr>) = same_rollback s s'"
  by (simp_all add: same_rollback_def)

lemma same_rollback_emit:
  "rollback_free acts \<Longrightarrow> same_rollback s (emit acts s') = same_rollback s s'"
  by (simp add: same_rollback_def emit_def rollback_free_def)

lemma plain_actions_not_rollback [simp]:
  "\<not> is_rollback_action (Recognizer_start l)"
  "\<not> is_rollback_action Recognizer_stop"
  "\<not> is_rollback_action (Stream_write b)"
  "\<not> is_rollback_action Stream_close"
  "\<not> is_rollback_action (Sleep x)"
  by (simp_all add: is_rollback_action_def)

lemma adopt_language_same_rollback: "same_rollback s (adopt_language s') = same_rollback s s'"
  by (simp add: adopt_language_def start_azure_def Let_def same_rollback_emit
      split: option.splits)

lemma on_chunk_same_rollback: "same_rollback s (snd (on_chunk chunk t0 t1 r s))"
proof -
  have d: "rollback_free (fst (whisper_detect b r))" for b
    by simp
  show ?thesis
    by (cases "whisper_detect (detect_buffer s @ chunk) r")
       (use d [of "detect_buffer s @ chunk"] in
        \<open>auto simp: on_chunk_def Let_def adopt_language_same_rollback same_rollback_emit
           split: sum.splits option.splits\<close>)
qed

lemma on_partial_same_rollback: "same_rollback s (snd (on_partial t r s))"
proof -
  have "rollback_free (fst (azure_translate t TARGET_LANG r))"
    by simp
  then show ?thesis
    by (cases "azure_translate t TARGET_LANG r")
       (auto simp: on_partial_def send_mid_translate_def same_rollback_emit emit_def
          same_rollback_def rollback_free_def split: sum.splits)
qed

lemma disconnect_same_rollback: "same_rollback s (disconnect s') = same_rollback s s'"
  by (simp add: disconnect_def Let_def same_rollback_emit)

lemma lock_is_permanent:
  "lang_locked s \<Longrightarrow> same_rollback s (run ins s)"
proof (induction ins arbitrary: s)
  case Nil
  then show ?case by simp
next
  case (Cons i ins)
  show ?case
  proof (cases i)
    case (Chunk chunk t0 t1 r)
    obtain res s' where o: "on_chunk chunk t0 t1 r s = (res, s')"
      by (cases "on_chunk chunk t0 t1 r s")
    with on_chunk_same_rollback [of s chunk t0 t1 r] have k: "same_rollback s s'"
      by simp
    then have "lang_locked s'"
      using Cons.prems by (simp add: same_rollback_def)
    from Cons.IH [OF this] k show ?thesis
      by (cases res) (auto simp: Chunk o disconnect_same_rollback intro: same_rollback_trans)
  next
    case (Partial_result t r)
    have k: "same_rollback s (snd (on_partial t r s))"
      by (rule on_partial_same_rollback)
    then have "lang_locked (snd (on_partial t r s))"
      using Cons.prems by (simp add: same_rollback_def)
    from Cons.IH [OF this] k show ?thesis
      by (auto simp: Partial_result intro: same_rollback_trans)
  next
    case (Final_result t env)
    have k: "same_rollback s (snd (on_final t env s))"
      using Cons.prems by (rule on_final_locked)
    then have "lang_locked (snd (on_final t env s))"
      using Cons.prems by (simp add: same_rollback_def)
    from Cons.IH [OF this] k show ?thesis
      by (auto simp: Final_result intro: same_rollback_trans)
  qed
qed


lemma invalidations_simps [simp]:
  "invalidations [] = 0"
  "invalidations (acts @ acts') = invalidations acts + invalidations acts'"
  "invalidations (a # acts) = (if a = Send ev_invalidate_all_asr then 1 else 0) + invalidations acts"
  by (simp_all add: invalidations_def)

lemma rollback_free_invalidations: "rollback_free acts \<Longrightarrow> invalidations acts = 0"
  by (induction acts) (auto simp: is_rollback_action_def)

lemma same_rollback_invalidations:
  "same_rollback s s' \<Longrightarrow> invalidations (effects s') = invalidations (effects s)"
proof -
  have "invalidations acts = invalidations (filter is_rollback_action acts)" for acts
    by (induction acts) (auto simp: is_rollback_action_def)
  then show "same_rollback s s' \<Longrightarrow> invalidations (effects s') = invalidations (effects s)"
    by (metis same_rollback_def)
qed

lemma replayed_events_not_invalidation [simp]:
  "ev_final_corrected t \<noteq> ev_invalidate_all_asr"
  "ev_final_translate_replayed t \<noteq> ev_invalidate_all_asr"
  "ev_invalidate_all_translation \<noteq> ev_invalidate_all_asr"
  "ev_lang_locked l \<noteq> ev_invalidate_all_asr"
  by (simp_all add: ev_final_corrected_def ev_final_translate_replayed_def
      ev_invalidate_all_asr_def ev_invalidate_all_translation_def ev_lang_locked_def)

lemma whisper_requests_invalidations [simp]:
  "invalidations (fst (whisper_transcribe b r)) = 0"
  "invalidations (fst (whisper_translate b r)) = 0"
  "invalidations (fst (embed_or_none t r)) = 0"
  by (simp_all add: whisper_transcribe_def whisper_translate_def embed_or_none_def embed_def
      split: prod.splits sum.splits)

lemma replay_invalidations:
  "invalidations (effects (snd (replay idx entries env s))) = invalidations (effects s)"
proof (induction entries arbitrary: idx s)
  case Nil
  then show ?case by simp
next
  case (Cons entry rest)
  obtain a1 r1 where w1: "whisper_transcribe (pcm entry) (replay_transcribe_reply env idx) = (a1, r1)"
    by (cases "whisper_transcribe (pcm entry) (replay_transcribe_reply env idx)")
  obtain a2 r2 where w2: "whisper_translate (pcm entry) (replay_translate_reply env idx) = (a2, r2)"
    by (cases "whisper_translate (pcm entry) (replay_translate_reply env idx)")
  have a: "invalidations a1 = 0" "invalidations a2 = 0"
    using whisper_requests_invalidations(1) [of "pcm entry" "replay_transcribe_reply env idx"]
      whisper_requests_invalidations(2) [of "pcm entry" "replay_translate_reply env idx"] w1 w2
    by simp_all
  show ?case
  proof (cases r1)
    case (Inl e)
    then show ?thesis by (simp add: w1 emit_def a)
  next
    case t1: (Inr correct_text)
    show ?thesis
    proof (cases r2)
      case (Inl e)
      then show ?thesis by (simp add: w1 w2 t1 emit_def a)
    next
      case t2: (Inr correct_trans)
      obtain a3 emb where e: "embed_or_none correct_trans (replay_embedding_reply env idx) = (a3, emb)"
        by (cases "embed_or_none correct_trans (replay_embedding_reply env idx)")
      have a3: "invalidations a3 = 0"
        using whisper_requests_invalidations(3) [of correct_trans "replay_embedding_reply env idx"] e
        by simp
      show ?thesis
        by (cases emb) (simp_all add: w1 w2 t1 t2 e Cons.IH emit_def a a3 Let_def)
    qed
  qed
qed

lemma restart_azure_invalidations [simp]:
  "invalidations (effects (restart_azure s)) = invalidations (effects s)"
  by (simp add: restart_azure_def start_azure_def emit_def Let_def split: option.splits)

lemma mismatch_handler_invalidations:
  "invalidations (effects (snd (mismatch_handler detected env s)))
     = invalidations (effects s) + 1"
proof -
  let ?s2 = "emit [Send ev_invalidate_all_asr, Send ev_invalidate_all_translation]
     (s\<lparr>last_translation_text := None, last_translation_embedding := None,
         last_translation_time := None\<rparr>)"
  obtain r s3 where r: "replay 0 (utterance_history ?s2) env ?s2 = (r, s3)"
    by (cases "replay 0 (utterance_history ?s2) env ?s2")
  from replay_invalidations [of 0 "utterance_history ?s2" env ?s2] r
  have "invalidations (effects s3) = invalidations (effects s) + 1"
    by (simp add: emit_def)
  then show ?thesis
    using r by (cases r) (simp_all add: mismatch_handler_def Let_def emit_def)
qed

lemma on_final_invalidations:
  assumes "fst (on_final txt env s) = None"
  shows "invalidations (effects (snd (on_final txt env s))) = invalidations (effects s) \<or>
         (lang_locked (snd (on_final txt env s)) \<and>
          invalidations (effects (snd (on_final txt env s))) = invalidations (effects s) + 1)"
proof (cases "azure_translate txt TARGET_LANG (translator_reply env)")
  case (Pair ta res)
  have ta: "invalidations ta = 0"
    using requests_not_rollback(1) [of "txt" TARGET_LANG "translator_reply env"] Pair
    by (simp add: rollback_free_invalidations)
  show ?thesis
  proof (cases res)
    case (Inl e)
    with assms Pair show ?thesis
      by (simp add: on_final_def record_and_translate_def)
  next
    case (Inr translated)
    note t = Pair [unfolded Inr]
    obtain da dres where d: "whisper_detect (current_utt_audio s) (detect_reply env) = (da, dres)"
      by (cases "whisper_detect (current_utt_audio s) (detect_reply env)")
    have da: "invalidations da = 0"
      using requests_not_rollback(2) [of "current_utt_audio s" "detect_reply env"] d
      by (simp add: rollback_free_invalidations)
    show ?thesis
    proof (cases dres)
      case (Inl e)
      with assms show ?thesis
        by (simp add: on_final_def record_and_translate_returns [OF t] verify_language_def d)
    next
      case (Inr detected)
      define s3 where "s3 = adopt_first_detection detected
         (emit da (merge_translation translated (clock env) (embedding_reply env)
            (s\<lparr>utterance_history := utterance_history s @
                 [\<lparr>pcm = current_utt_audio s, azure_text = txt,
                   azure_translation = Some translated\<rparr>],
               effects := effects s @ Send (ev_final txt) # ta\<rparr>)))"
      have o: "on_final txt env s = decide_language detected env s3"
        unfolding s3_def by (rule on_final_decides [OF t d [unfolded Inr]])
      have "rollback_free (fst (embed_or_none translated (embedding_reply env)))"
        by simp
      then have i3: "invalidations (effects s3) = invalidations (effects s)"
        by (simp add: s3_def adopt_first_detection_def emit_def merge_translation_effects ta da
            rollback_free_invalidations ev_final_def ev_final_translate_def
            ev_invalidate_all_asr_def)
      show ?thesis
      proof (cases "\<not> lang_locked s3 \<and> provisional_lang s3 \<noteq> None \<and> in_LANG_MAP detected
                    \<and> Some detected \<noteq> provisional_lang s3")
        case True
        with assms o have c: "fst (mismatch_handler detected env s3) = None"
          by (cases "mismatch_handler detected env s3")
             (auto simp: decide_language_def split: option.splits)
        from True have "snd (decide_language detected env s3)
            = (snd (mismatch_handler detected env s3))\<lparr>current_utt_audio := []\<rparr>"
          using c by (cases "mismatch_handler detected env s3") (auto simp: decide_language_def)
        then show ?thesis
          using mismatch_handler_completed(2) [OF c] mismatch_handler_invalidations [of detected env s3]
          by (simp add: o i3)
      next
        case False
        then have "invalidations (effects (snd (decide_language detected env s3)))
            = invalidations (effects s3)"
          by (auto simp: decide_language_def emit_def)
        then show ?thesis
          by (simp add: o i3)
      qed
    qed
  qed
qed



lemma at_most_one_completed_mismatch:
  "callbacks_complete ins s \<Longrightarrow>
   invalidations (effects (run ins s))
     \<le> invalidations (effects s) + (if lang_locked s then 0 else 1)"
proof (induction ins arbitrary: s)
  case Nil
  then show ?case by simp
next
  case (Cons i ins)
  show ?case
  proof (cases "lang_locked s")
    case True
    from lock_is_permanent [OF True, of "i # ins"]
    have "invalidations (effects (run (i # ins) s)) = invalidations (effects s)"
      by (rule same_rollback_invalidations)
    then show ?thesis
      by (simp only: True if_True) 
  next
    case False
    show ?thesis
    proof (cases i)
      case (Chunk chunk t0 t1 r)
      obtain res s' where o: "on_chunk chunk t0 t1 r s = (res, s')"
        by (cases "on_chunk chunk t0 t1 r s")
      with on_chunk_same_rollback [of s chunk t0 t1 r] have k: "same_rollback s s'"
        by simp
      then have e: "invalidations (effects s') = invalidations (effects s)"
        "lang_locked s' = lang_locked s"
        by (rule same_rollback_invalidations) (simp add: k [unfolded same_rollback_def])
      show ?thesis
      proof (cases res)
        case None
        have ru: "run (i # ins) s = run ins s'"
          by (simp only: Chunk run.simps o None prod.case option.case)
        from Cons.prems have "callbacks_complete ins s'"
          by (simp only: Chunk callbacks_complete.simps o None prod.case option.case)
        from Cons.IH [OF this] show ?thesis
          by (simp only: ru e)
      next
        case (Some x)
        have ru: "run (i # ins) s = disconnect s'"
          by (simp only: Chunk run.simps o Some prod.case option.case)
        have "same_rollback s (disconnect s')"
          by (simp only: disconnect_same_rollback k)
        then have "invalidations (effects (disconnect s')) = invalidations (effects s)"
          by (rule same_rollback_invalidations)
        then show ?thesis
          by (simp only: ru)
      qed
    next
      case (Partial_result t r)
      have k: "same_rollback s (snd (on_partial t r s))"
        by (rule on_partial_same_rollback)
      then have e: "invalidations (effects (snd (on_partial t r s))) = invalidations (effects s)"
        "lang_locked (snd (on_partial t r s)) = lang_locked s"
        by (rule same_rollback_invalidations) (simp add: k [unfolded same_rollback_def])
      have ru: "run (i # ins) s = run ins (snd (on_partial t r s))"
        by (simp only: Partial_result run.simps)
      from Cons.prems have "callbacks_complete ins (snd (on_partial t r s))"
        by (simp only: Partial_result callbacks_complete.simps)
      from Cons.IH [OF this] show ?thesis
        by (simp only: ru e)
    next
      case (Final_result t env)
      from Cons.prems have c: "fst (on_final t env s) = None"
        and r: "callbacks_complete ins (snd (on_final t env s))"
        by (simp_all only: Final_result callbacks_complete.simps)
      have ru: "run (i # ins) s = run ins (snd (on_final t env s))"
        by (simp only: Final_result run.simps)
      from on_final_invalidations [OF c] show ?thesis
      proof
        assume a: "invalidations (effects (snd (on_final t env s))) = invalidations (effects s)"
        from Cons.IH [OF r] have "invalidations (effects (run ins (snd (on_final t env s))))
           \<le> invalidations (effects s) + 1"
          unfolding a by (cases "lang_locked (snd (on_final t env s))") simp_all
        then show ?thesis
          by (simp only: ru False if_False)
      next
        assume a: "lang_locked (snd (on_final t env s)) \<and>
          invalidations (effects (snd (on_final t env s))) = invalidations (effects s) + 1"
        with Cons.IH [OF r] have "invalidations (effects (run ins (snd (on_final t env s))))
           \<le> invalidations (effects s) + 1"
          by simp
        then show ?thesis
          by (simp only: ru False if_False)
      qed
    qed
  qed
qed

text \<open>
  Claim C2 (once locked, no invalidation and no replay; hence at most one mismatch per
  session).  The first half holds: \<open>lock_is_permanent\<close> shows that from a locked session
  no run adds a rollback action or changes the lock, whatever the detector returns.  The
  second half holds for the runs in which every call of \<open>on_final\<close> ends without an
  exception (\<open>at_most_one_completed_mismatch\<close>).  It fails when a Whisper request of the
  replay raises: the exception is not caught, so \<open>on_final\<close> ends after the invalidation
  events with the session unlocked, the old provisional language and the whole history
  in place.  The next utterance that is detected in another language invalidates and
  replays a second time.
\<close>

theorem mismatch_twice_after_aborted_replay:
  "on_final ''konnichiwa'' abort_env japanese_session = (Some ClientError, aborted_session) \<and>
   \<not> lang_locked aborted_session \<and>
   provisional_lang aborted_session = Some ''japanese'' \<and>
   filter (\<lambda>a. a = Send ev_invalidate_all_asr)
     (effects (run [Final_result ''konnichiwa'' abort_env,
                    Chunk [0xE8, 0x03] 25 25 Unreachable,
                    Final_result ''arigato'' ((example_env ''english'')\<lparr>clock := 30\<rparr>)]
                 japanese_session))
     = [Send ev_invalidate_all_asr, Send ev_invalidate_all_asr] \<and>
   lang_locked (run [Final_result ''konnichiwa'' abort_env,
                    Chunk [0xE8, 0x03] 25 25 Unreachable,
                    Final_result ''arigato'' ((example_env ''english'')\<lparr>clock := 30\<rparr>)]
                 japanese_session)"
proof -
  have 1: "on_final ''konnichiwa'' abort_env japanese_session = (Some ClientError, aborted_session)"
    by (simp add: aborted_session_def abort_env_def japanese_session_eq session_defs call_defs
        reply_defs)
  have 2: "on_chunk [0xE8, 0x03] 25 25 Unreachable aborted_session
     = (None, aborted_session\<lparr>current_utt_audio := [0x10, 0x27, 0xE8, 0x03],
          effects := effects aborted_session @ [Stream_write [0xE8, 0x03]]\<rparr>)"
    by (simp add: aborted_session_def japanese_session_eq on_chunk_def emit_def)
  have 3: "filter (\<lambda>a. a = Send ev_invalidate_all_asr)
     (effects (snd (on_final ''arigato'' ((example_env ''english'')\<lparr>clock := 30\<rparr>)
        (aborted_session\<lparr>current_utt_audio := [0x10, 0x27, 0xE8, 0x03],
          effects := effects aborted_session @ [Stream_write [0xE8, 0x03]]\<rparr>))))
     = [Send ev_invalidate_all_asr, Send ev_invalidate_all_asr] \<and>
     lang_locked (snd (on_final ''arigato'' ((example_env ''english'')\<lparr>clock := 30\<rparr>)
        (aborted_session\<lparr>current_utt_audio := [0x10, 0x27, 0xE8, 0x03],
          effects := effects aborted_session @ [Stream_write [0xE8, 0x03]]\<rparr>)))"
    by (simp add: aborted_session_def japanese_session_eq japanese_effects_def session_defs
        call_defs reply_defs ev_final_def ev_final_translate_def ev_lang_def ev_lang_locked_def
        ev_invalidate_all_asr_def ev_invalidate_all_translation_def ev_final_corrected_def
        ev_final_translate_replayed_def)
  have 4: "\<not> lang_locked aborted_session" "provisional_lang aborted_session = Some ''japanese''"
    by (simp_all add: aborted_session_def japanese_session_eq)
  show ?thesis
    by (simp add: 1 2 3 4)
qed

section \<open>The debounce of partial translations\<close>

lemma wake_tasks_idle:
  "list_all (\<lambda>k. status k \<noteq> Sleeping) ts \<Longrightarrow> wake_tasks now answer ts = (ts, [])"
  by (induction ts) simp_all

lemma wake_tasks_append:
  "wake_tasks now answer (ts @ us) =
     (fst (wake_tasks now answer ts) @ fst (wake_tasks now answer us),
      snd (wake_tasks now answer ts) @ snd (wake_tasks now answer us))"
  by (induction ts) (simp_all add: Let_def split: prod.splits)

lemma fixed_send_mid_translate_requests:
  "filter is_translation_request (fixed_send_mid_translate x r) =
     (if py_strip x = [] then [] else [Translator_post x TARGET_LANG])"
  by (auto simp: fixed_send_mid_translate_def fixed_azure_translate_def is_translation_request_def
      ev_mid_translate_def py_strip_def split: prod.splits)

lemma debounce_step:
  assumes "only_last_pending s t x" and "t \<le> t'" and "t' < t + DEBOUNCE_SEC"
    and "x' \<noteq> []" and "x' \<noteq> x"
  shows "only_last_pending (on_recognizing t' x' (run_event_loop t' answer s)) t' x'"
proof -
  from assms(1) obtain ts where
    ts: "tasks s = ts @ [\<lparr>wake_time = t + DEBOUNCE_SEC, hypothesis = x, status = Sleeping\<rparr>]"
    and idle: "list_all (\<lambda>k. status k \<noteq> Sleeping) ts"
    and tt: "translate_task s = Some (length ts)"
    and lp: "last_partial_text s = x"
    and ef: "filter is_translation_request (fixed_effects s) = []"
    by (auto simp: only_last_pending_def)
  have w: "wake_tasks t' answer (tasks s) = (tasks s, [])"
    using assms(3) by (simp add: ts wake_tasks_append wake_tasks_idle [OF idle])
  then have l: "run_event_loop t' answer s = s"
    by (simp add: run_event_loop_def)
  let ?ts' = "ts @ [\<lparr>wake_time = t + DEBOUNCE_SEC, hypothesis = x, status = Cancelled\<rparr>]"
  have "tasks (on_recognizing t' x' s)
      = ?ts' @ [\<lparr>wake_time = t' + DEBOUNCE_SEC, hypothesis = x', status = Sleeping\<rparr>]"
    and "translate_task (on_recognizing t' x' s) = Some (length ?ts')"
    and "last_partial_text (on_recognizing t' x' s) = x'"
    and "filter is_translation_request (fixed_effects (on_recognizing t' x' s)) = []"
    using assms(4,5)
    by (simp_all add: on_recognizing_def Let_def ts tt lp ef cancel_def is_translation_request_def)
  moreover have "list_all (\<lambda>k. status k \<noteq> Sleeping) ?ts'"
    using idle by simp
  ultimately show ?thesis
    unfolding l only_last_pending_def by blast
qed

lemma debounce_run:
  assumes "only_last_pending s t x" and "rapid t x rest"
    and "fst (last ((t, x) # rest)) + DEBOUNCE_SEC \<le> until"
  shows "filter is_translation_request (fixed_effects (fixed_run answer rest until s)) =
     (if py_strip (snd (last ((t, x) # rest))) = [] then []
      else [Translator_post (snd (last ((t, x) # rest))) TARGET_LANG])"
  using assms
proof (induction rest arbitrary: s t x)
  case Nil
  from Nil.prems(1) obtain ts where
    ts: "tasks s = ts @ [\<lparr>wake_time = t + DEBOUNCE_SEC, hypothesis = x, status = Sleeping\<rparr>]"
    and idle: "list_all (\<lambda>k. status k \<noteq> Sleeping) ts"
    and ef: "filter is_translation_request (fixed_effects s) = []"
    by (auto simp: only_last_pending_def)
  from Nil.prems(3) have "t + DEBOUNCE_SEC \<le> until" by simp
  then show ?case
    by (simp add: run_event_loop_def ts wake_tasks_append wake_tasks_idle [OF idle] ef
        fixed_send_mid_translate_requests)
next
  case (Cons h rest)
  obtain t' x' where h: "h = (t', x')" by (cases h)
  from Cons.prems(2) have r: "t \<le> t'" "t' < t + DEBOUNCE_SEC" "x' \<noteq> []" "x' \<noteq> x"
    "rapid t' x' rest"
    by (simp_all add: h)
  have p: "only_last_pending (on_recognizing t' x' (run_event_loop t' answer s)) t' x'"
    using Cons.prems(1) r(1-4) by (rule debounce_step)
  from Cons.prems(3) have u: "fst (last ((t', x') # rest)) + DEBOUNCE_SEC \<le> until"
    by (simp add: h)
  from Cons.IH [OF p r(5) u] show ?case
    by (simp add: h)
qed

lemma first_hypothesis:
  assumes "x \<noteq> []"
  shows "only_last_pending (on_recognizing t x (run_event_loop t answer new_fixed_session)) t x"
  using assms
  by (simp add: only_last_pending_def run_event_loop_def new_fixed_session_def
      on_recognizing_def Let_def is_translation_request_def)

lemmas fixed_defs = run_event_loop_def on_recognizing_def cancel_def new_fixed_session_def DEBOUNCE_SEC_def fixed_send_mid_translate_def
  fixed_azure_translate_def Let_def

text \<open>
  Claim C9, as written, holds for partial-hypothesis translation in general.  The
  auto-detect endpoint has no debounce: \<open>on_partial\<close> of \<open>main.py\<close> schedules
  \<open>send_mid_translate\<close> for every hypothesis that is not empty, and each one is
  translated.  Three hypotheses in a row give three translation requests.
\<close>

theorem auto_detect_translates_every_partial:
  "effects (run [Partial_result ''he'' (translated_as ''il''),
                 Partial_result ''hel'' (translated_as ''enfer''),
                 Partial_result ''hello'' (translated_as ''bonjour'')] japanese_session)
     = japanese_effects @
       [Send (ev_partial ''he''), Translator_post ''he'' ''en'', Send (ev_mid_translate ''il''),
        Send (ev_partial ''hel''), Translator_post ''hel'' ''en'',
        Send (ev_mid_translate ''enfer''),
        Send (ev_partial ''hello''), Translator_post ''hello'' ''en'',
        Send (ev_mid_translate ''bonjour'')]"
  by (simp add: japanese_session_eq session_defs call_defs reply_defs)

text \<open>
  Claim C9, amended: the debounce of the fixed-language endpoint.  Partial hypotheses
  arrive at \<open>ws_fixed\<close>'s \<open>on_recognizing\<close>, each one not empty, different from the one
  before it and less than 0.3 s after it; then the event loop runs until at least 0.3 s
  after the last one.  Every task but the last is cancelled while it sleeps, and the
  only translation that is ever requested is that of the last hypothesis (none at all
  if the last hypothesis is blank).
\<close>

theorem fixed_debounce_requests_only_last_hypothesis:
  assumes "x \<noteq> []" and "rapid t x rest"
    and "fst (last ((t, x) # rest)) + DEBOUNCE_SEC \<le> until"
  shows "filter is_translation_request
           (fixed_effects (fixed_run answer ((t, x) # rest) until new_fixed_session)) =
     (if py_strip (snd (last ((t, x) # rest))) = [] then []
      else [Translator_post (snd (last ((t, x) # rest))) TARGET_LANG])"
  using debounce_run [OF first_hypothesis [OF assms(1)] assms(2,3), of answer]
  by simp


theorem fixed_debounce_requests_only_last_hypothesis_witness:
  "''he'' \<noteq> [] \<and> rapid 0 ''he'' [(1 / 10, ''hel''), (1 / 5, ''hello'')] \<and>
   fst (last [(0, ''he''), (1 / 10, ''hel''), (1 / 5, ''hello'')]) + DEBOUNCE_SEC \<le> 1 / 2 \<and>
   filter is_translation_request
     (fixed_effects (fixed_run (\<lambda>x. translated_as ''bonjour'')
        [(0, ''he''), (1 / 10, ''hel''), (1 / 5, ''hello'')] (1 / 2) new_fixed_session))
     = [Translator_post ''hello'' ''en''] \<and>
   fixed_effects (fixed_run (\<lambda>x. translated_as ''bonjour'')
        [(0, ''he''), (1 / 10, ''hel''), (1 / 5, ''hello'')] (1 / 2) new_fixed_session)
     = [Send (ev_partial ''he''), Send (ev_partial ''hel''), Send (ev_partial ''hello''),
        Translator_post ''hello'' ''en'', Send (ev_mid_translate ''bonjour'')]"
proof -
  have h: "''he'' \<noteq> []"
    by simp
  have r: "rapid 0 ''he'' [(1 / 10, ''hel''), (1 / 5, ''hello'')]"
    by (simp add: DEBOUNCE_SEC_def)
  have u: "fst (last [(0, ''he''), (1 / 10, ''hel''), (1 / 5, ''hello'')]) + DEBOUNCE_SEC
             \<le> (1 / 2 :: real)"
    by (simp add: DEBOUNCE_SEC_def)
  have e: "fixed_effects (fixed_run (\<lambda>x. translated_as ''bonjour'')
        [(0, ''he''), (1 / 10, ''hel''), (1 / 5, ''hello'')] (1 / 2) new_fixed_session)
     = [Send (ev_partial ''he''), Send (ev_partial ''hel''), Send (ev_partial ''hello''),
        Translator_post ''hello'' ''en'', Send (ev_mid_translate ''bonjour'')]"
    by (simp add: fixed_defs call_defs reply_defs)
  have s: "py_strip ''hello'' = ''hello''"
    by (simp add: py_strip_def is_space_def)
  note th = fixed_debounce_requests_only_last_hypothesis [OF h r u, of "\<lambda>x. translated_as ''bonjour''"]
  have l: "snd (last [(0 :: real, ''he''), (1 / 10, ''hel''), (1 / 5, ''hello'')]) = ''hello''"
    by simp
  from th have "filter is_translation_request
     (fixed_effects (fixed_run (\<lambda>x. translated_as ''bonjour'')
        [(0, ''he''), (1 / 10, ''hel''), (1 / 5, ''hello'')] (1 / 2) new_fixed_session))
     = [Translator_post ''hello'' ''en'']"
    by (simp only: l s) (simp add: TARGET_LANG_def)
  with h r u e show ?thesis
    by (simp only: simp_thms)
qed

section \<open>Reachable sessions\<close>

lemma well_formed_new_session: "well_formed new_session"
  by (simp add: well_formed_def context_complete_def locked_has_language_def new_session_def)

lemma well_formed_emit [simp]: "well_formed (emit acts s) = well_formed s"
  by (simp add: well_formed_def context_complete_def locked_has_language_def emit_def)

lemma well_formed_update [simp]:
  "well_formed (s\<lparr>current_utt_audio := a\<rparr>) = well_formed s"
  "well_formed (s\<lparr>detect_buffer := a\<rparr>) = well_formed s"
  "well_formed (s\<lparr>first_speech_time := ti\<rparr>) = well_formed s"
  "well_formed (s\<lparr>recognizer := rc\<rparr>) = well_formed s"
  "well_formed (s\<lparr>push_stream := ps\<rparr>) = well_formed s"
  "well_formed (s\<lparr>utterance_history := h\<rparr>) = well_formed s"
  "well_formed (s\<lparr>effects := ef\<rparr>) = well_formed s"
  by (simp_all add: well_formed_def context_complete_def locked_has_language_def)

lemma well_formed_language: "well_formed s \<Longrightarrow> well_formed (s\<lparr>provisional_lang := Some l\<rparr>)"
  by (simp add: well_formed_def context_complete_def locked_has_language_def)

lemma well_formed_start_azure [simp]: "well_formed (start_azure l s) = well_formed s"
  by (simp add: start_azure_def Let_def)

lemma well_formed_restart_azure [simp]: "well_formed (restart_azure s) = well_formed s"
  by (simp add: restart_azure_def Let_def split: option.splits)

lemma well_formed_adopt_language [simp]: "well_formed (adopt_language s) = well_formed s"
  by (simp add: adopt_language_def Let_def split: option.splits)

lemma well_formed_disconnect [simp]: "well_formed (disconnect s) = well_formed s"
  by (simp add: disconnect_def Let_def)

lemma well_formed_on_chunk:
  "well_formed s \<Longrightarrow> well_formed (snd (on_chunk chunk t0 t1 r s))"
  by (cases "whisper_detect (detect_buffer s @ chunk) r")
     (auto simp: on_chunk_def Let_def well_formed_language split: sum.splits option.splits)

lemma well_formed_on_partial:
  "well_formed s \<Longrightarrow> well_formed (snd (on_partial t r s))"
  by (cases "azure_translate t TARGET_LANG r")
     (auto simp: on_partial_def send_mid_translate_def split: sum.splits)

lemma well_formed_merge_translation:
  "well_formed s \<Longrightarrow> well_formed (merge_translation translated now r s)"
  by (cases "embed_or_none translated r")
     (auto simp: merge_translation_def Let_def well_formed_def context_complete_def
        locked_has_language_def emit_def split: option.splits)

lemma well_formed_replay:
  "well_formed s \<Longrightarrow> well_formed (snd (replay idx entries env s))"
proof (induction entries arbitrary: idx s)
  case Nil
  then show ?case by simp
next
  case (Cons entry rest)
  obtain a1 r1 where w1: "whisper_transcribe (pcm entry) (replay_transcribe_reply env idx) = (a1, r1)"
    by (cases "whisper_transcribe (pcm entry) (replay_transcribe_reply env idx)")
  obtain a2 r2 where w2: "whisper_translate (pcm entry) (replay_translate_reply env idx) = (a2, r2)"
    by (cases "whisper_translate (pcm entry) (replay_translate_reply env idx)")
  show ?case
  proof (cases r1)
    case (Inl e)
    with Cons.prems show ?thesis by (simp add: w1)
  next
    case t1: (Inr correct_text)
    show ?thesis
    proof (cases r2)
      case (Inl e)
      with Cons.prems show ?thesis by (simp add: w1 w2 t1)
    next
      case t2: (Inr correct_trans)
      obtain a3 emb where e: "embed_or_none correct_trans (replay_embedding_reply env idx) = (a3, emb)"
        by (cases "embed_or_none correct_trans (replay_embedding_reply env idx)")
      from Cons.prems have c: "context_complete s" "locked_has_language s"
        by (simp_all add: well_formed_def)
      show ?thesis
        using c
        apply (cases emb)
         apply (auto simp: w1 w2 t1 t2 e Let_def emit_def)
               apply (rule Cons.IH,
                 (auto simp: well_formed_def context_complete_def locked_has_language_def)[1])+
        done
    qed
  qed
qed

lemma well_formed_mismatch_handler:
  "well_formed s \<Longrightarrow> well_formed (snd (mismatch_handler detected env s))"
proof -
  assume w: "well_formed s"
  let ?s2 = "emit [Send ev_invalidate_all_asr, Send ev_invalidate_all_translation]
     (s\<lparr>last_translation_text := None, last_translation_embedding := None,
         last_translation_time := None\<rparr>)"
  have "well_formed ?s2"
    using w by (simp add: well_formed_def context_complete_def locked_has_language_def emit_def)
  then have r: "well_formed (snd (replay 0 (utterance_history ?s2) env ?s2))"
    by (rule well_formed_replay)
  obtain res s3 where o: "replay 0 (utterance_history ?s2) env ?s2 = (res, s3)"
    by (cases "replay 0 (utterance_history ?s2) env ?s2")
  with r have w3: "well_formed s3"
    by simp
  then have "well_formed (s3\<lparr>utterance_history := [], provisional_lang := Some detected,
      lang_locked := True\<rparr>)"
    by (simp add: well_formed_def context_complete_def locked_has_language_def)
  with w3 show ?thesis
    using o by (cases res) (simp_all add: mismatch_handler_def Let_def)
qed

lemma well_formed_decide_language:
  assumes "well_formed s"
  shows "well_formed (snd (decide_language detected env s))"
proof -
  have l: "provisional_lang s \<noteq> None \<Longrightarrow> well_formed (s\<lparr>lang_locked := True\<rparr>)"
    using assms by (simp add: well_formed_def context_complete_def locked_has_language_def)
  show ?thesis
    using assms well_formed_mismatch_handler [OF assms, of detected env] l
    by (cases "mismatch_handler detected env s")
       (auto simp: decide_language_def split: option.splits)
qed

lemma well_formed_on_final:
  assumes "well_formed s"
  shows "well_formed (snd (on_final t env s))"
proof (cases "azure_translate t TARGET_LANG (translator_reply env)")
  case (Pair ta res)
  show ?thesis
  proof (cases res)
    case (Inl e)
    with assms Pair show ?thesis
      by (simp add: on_final_def record_and_translate_def)
  next
    case (Inr translated)
    let ?s2 = "merge_translation translated (clock env) (embedding_reply env)
            (s\<lparr>utterance_history := utterance_history s @
                 [\<lparr>pcm = current_utt_audio s, azure_text = t,
                   azure_translation = Some translated\<rparr>],
               effects := effects s @ Send (ev_final t) # ta\<rparr>)"
    have w2: "well_formed ?s2"
      using assms by (simp add: well_formed_merge_translation)
    obtain da dres where d: "whisper_detect (current_utt_audio s) (detect_reply env) = (da, dres)"
      by (cases "whisper_detect (current_utt_audio s) (detect_reply env)")
    have o: "on_final t env s = verify_language (current_utt_audio s) env ?s2"
      by (simp add: on_final_def record_and_translate_returns [OF Pair [unfolded Inr]])
    show ?thesis
    proof (cases dres)
      case (Inl e)
      with w2 show ?thesis
        by (simp add: o verify_language_def d)
    next
      case (Inr detected)
      have "well_formed (adopt_first_detection detected (emit da ?s2))"
        using w2 by (simp add: adopt_first_detection_def well_formed_language)
      then show ?thesis
        by (simp add: o verify_language_def d Inr well_formed_decide_language)
    qed
  qed
qed

lemma well_formed_run: "well_formed s \<Longrightarrow> well_formed (run ins s)"
proof (induction ins arbitrary: s)
  case Nil
  then show ?case by simp
next
  case (Cons i ins)
  show ?case
  proof (cases i)
    case (Chunk chunk t0 t1 r)
    from Cons.prems have "well_formed (snd (on_chunk chunk t0 t1 r s))"
      by (rule well_formed_on_chunk)
    then show ?thesis
      by (cases "on_chunk chunk t0 t1 r s")
         (auto simp: Chunk Cons.IH split: option.splits)
  next
    case (Partial_result t r)
    with Cons.prems show ?thesis
      by (simp add: Cons.IH well_formed_on_partial)
  next
    case (Final_result t env)
    with Cons.prems show ?thesis
      by (simp add: Cons.IH well_formed_on_final)
  qed
qed

lemma reachable_sessions_are_well_formed: "well_formed (run ins new_session)"
  by (rule well_formed_run [OF well_formed_new_session])

end
